theory Spec2Isabelle
  imports Main "HOL-Library.Char_ord" "HOL-Library.List_Lexorder"
begin

section \<open>Offline storage (src/utils/offlineStorage.ts)\<close>

text \<open>
  Every asynchronous function of the sources returns a promise. A promise that rejects
  is a value \<open>Inl e\<close>, one that resolves is \<open>Inr v\<close>. The three ways an error
  arises are kept apart: the storage layer, the remote service, and an
  \<^verbatim>\<open>new Error(msg)\<close> thrown by a hook itself.
\<close>

datatype error = StorageError string | RemoteError string | Failure string

fun message :: "error \<Rightarrow> string" where
  "message (StorageError m) = m"
| "message (RemoteError m) = m"
| "message (Failure m) = m"

text \<open>
  The behaviour of the browser's database during one call: \<^verbatim>\<open>indexedDB.open\<close>
  fails (\<^verbatim>\<open>initDB\<close> rejects), or the database opens and the transaction or its
  request fails (\<^verbatim>\<open>onerror\<close>, or \<^verbatim>\<open>db.transaction\<close> throwing inside the
  promise executor), or everything works.
\<close>

datatype db_status = Healthy | OpenFails string | RequestFails string

fun initDB :: "db_status \<Rightarrow> error + unit" where
  "initDB (OpenFails m) = Inl (StorageError m)"
| "initDB _ = Inr ()"

text \<open>
  An object store with \<^verbatim>\<open>keyPath: 'id'\<close> holds at most one record per key and
  lists its records in ascending key order; strings are compared unit by unit, a proper
  prefix first, which is the order of \<^typ>\<open>string\<close> here. A collection is the list of
  its records in that order; \<open>key\<close> reads the \<^verbatim>\<open>id\<close> of a record.
  \<^verbatim>\<open>store.put(item)\<close> overwrites the record under the item's key or inserts the item.
\<close>

fun put :: "('r \<Rightarrow> string) \<Rightarrow> 'r \<Rightarrow> 'r list \<Rightarrow> 'r list" where
  "put key x [] = [x]"
| "put key x (y # ys) =
     (if key x = key y then x # ys
      else if key x < key y then x # y # ys
      else y # put key x ys)"

definition well_keyed :: "('r \<Rightarrow> string) \<Rightarrow> 'r list \<Rightarrow> bool" where
  "well_keyed key st = sorted_wrt (<) (map key st)"

text \<open>\<^verbatim>\<open>Array.isArray(data)\<close> tells a batch from a single record.\<close>

datatype 'r save_data = Single 'r | Batch "'r list"

fun put_all :: "('r \<Rightarrow> string) \<Rightarrow> 'r save_data \<Rightarrow> 'r list \<Rightarrow> 'r list" where
  "put_all key (Single item) st = put key item st"
| "put_all key (Batch items) st = foldl (\<lambda>acc item. put key item acc) st items"

text \<open>
  The promise each function builds around its transaction: it rejects when the
  transaction or the request fails, and resolves with the request's result otherwise.
\<close>

fun request :: "db_status \<Rightarrow> 'a \<Rightarrow> error + 'a" where
  "request (RequestFails m) v = Inl (StorageError m)"
| "request _ v = Inr v"

text \<open>
  \<^verbatim>\<open>saveToIndexedDB\<close>: the \<^verbatim>\<open>catch\<close> rethrows, and a transaction error rejects;
  an aborted transaction commits none of its puts.
\<close>

definition saveToIndexedDB ::
  "db_status \<Rightarrow> ('r \<Rightarrow> string) \<Rightarrow> 'r save_data \<Rightarrow> 'r list \<Rightarrow> error + 'r list" where
  "saveToIndexedDB d key data st =
     (case initDB d of
        Inl e \<Rightarrow> Inl e
      | Inr _ \<Rightarrow> request d (put_all key data st))"

text \<open>
  \<^verbatim>\<open>getAllFromIndexedDB\<close> and \<^verbatim>\<open>getByIdFromIndexedDB\<close>: only \<^verbatim>\<open>await initDB()\<close>
  is awaited inside the \<^verbatim>\<open>try\<close>; its rejection reaches the \<^verbatim>\<open>catch\<close>, which
  returns \<^verbatim>\<open>[]\<close> (respectively \<^verbatim>\<open>null\<close>). The promise built around the request is
  returned without \<^verbatim>\<open>await\<close>, so the \<^verbatim>\<open>try\<close> block is left before it settles and
  its \<^verbatim>\<open>reject\<close> is the rejection of the function's own promise.
\<close>

definition getAllFromIndexedDB :: "db_status \<Rightarrow> 'r list \<Rightarrow> error + 'r list" where
  "getAllFromIndexedDB d st =
     (case initDB d of
        Inl e \<Rightarrow> Inr []
      | Inr _ \<Rightarrow> request d st)"

text \<open>\<open>None\<close> is both \<^verbatim>\<open>null\<close> and the \<^verbatim>\<open>undefined\<close> of a key that is not stored.\<close>

definition getByIdFromIndexedDB ::
  "db_status \<Rightarrow> ('r \<Rightarrow> string) \<Rightarrow> string \<Rightarrow> 'r list \<Rightarrow> error + 'r option" where
  "getByIdFromIndexedDB d key k st =
     (case initDB d of
        Inl e \<Rightarrow> Inr None
      | Inr _ \<Rightarrow> request d (find (\<lambda>r. key r = k) st))"

definition deleteFromIndexedDB ::
  "db_status \<Rightarrow> ('r \<Rightarrow> string) \<Rightarrow> string \<Rightarrow> 'r list \<Rightarrow> error + 'r list" where
  "deleteFromIndexedDB d key k st =
     (case initDB d of
        Inl e \<Rightarrow> Inl e
      | Inr _ \<Rightarrow> request d (filter (\<lambda>r. key r \<noteq> k) st))"

text \<open>The keys a collection holds.\<close>

definition keys_of :: "('r \<Rightarrow> string) \<Rightarrow> 'r list \<Rightarrow> string set" where
  "keys_of key st = key ` set st"

section \<open>What the hooks share\<close>

text \<open>
  \<^verbatim>\<open>useOfflineStatus()\<close>, the state of the database, and the three readings of the
  clock and of \<^verbatim>\<open>Math.random()\<close> a call makes: \<^verbatim>\<open>Date.now()\<close> as it prints,
  \<^verbatim>\<open>Math.random().toString(36).substring(2, 9)\<close>, and \<^verbatim>\<open>new Date().toISOString()\<close>.
\<close>

record conn =
  isOffline :: bool
  db :: db_status
  nowMs :: string
  rand :: string
  nowIso :: string

text \<open>\<^verbatim>\<open>{...a, ...b}\<close> on one field: the value of \<open>b\<close> where \<open>b\<close> has the key.\<close>

fun override :: "'a option \<Rightarrow> 'a \<Rightarrow> 'a" where
  "override None x = x"
| "override (Some v) x = v"

text \<open>\<^verbatim>\<open>xs.findIndex(p)\<close>, with \<open>None\<close> for \<^verbatim>\<open>-1\<close>; \<^verbatim>\<open>xs.find(p)\<close> is \<^const>\<open>find\<close>.\<close>

fun findIndex :: "('a \<Rightarrow> bool) \<Rightarrow> 'a list \<Rightarrow> nat option" where
  "findIndex p [] = None"
| "findIndex p (x # xs) =
     (if p x then Some 0 else map_option Suc (findIndex p xs))"

text \<open>\<^verbatim>\<open>xs.splice(i, 1)\<close>.\<close>

definition splice1 :: "nat \<Rightarrow> 'a list \<Rightarrow> 'a list" where
  "splice1 i xs = take i xs @ drop (Suc i) xs"

text \<open>\<^verbatim>\<open>err.message || fallback\<close>: the empty string is falsy.\<close>

definition message_or :: "error \<Rightarrow> string \<Rightarrow> string" where
  "message_or e fallback = (if message e = [] then fallback else message e)"

section \<open>Tasks (src/hooks/useTasks.ts)\<close>

text \<open>
  \<^verbatim>\<open>Task\<close>, \<^verbatim>\<open>NewTask\<close> and \<^verbatim>\<open>OfflineTask\<close>. The file that declares the first
  two (\<^verbatim>\<open>types/task.ts\<close>) is not among the sources at hand, so the fields the hook
  itself writes are fields of the record, and whatever else a task carries (title, due
  date, ...) is the map \<open>tcols\<close> from column name to value, over any type \<open>'v\<close> of
  values. \<^verbatim>\<open>userId\<close> exists on the stored tasks only, hence the option.
\<close>

record 'v task =
  tid :: string
  tcreatedAt :: string
  updatedAt :: "string option"
  status :: string
  isAdminTask :: bool
  userId :: "string option"
  tcols :: "string \<rightharpoonup> 'v"

text \<open>
  An object with some of the keys of a task: a \<^verbatim>\<open>Partial<Task>\<close>, and a
  \<^verbatim>\<open>NewTask\<close>.
\<close>

record 'v task_patch =
  p_tid :: "string option"
  p_tcreatedAt :: "string option"
  p_updatedAt :: "string option"
  p_status :: "string option"
  p_isAdminTask :: "bool option"
  p_userId :: "string option"
  p_tcols :: "string \<rightharpoonup> 'v"

definition merge_task :: "'v task \<Rightarrow> 'v task_patch \<Rightarrow> 'v task" where
  "merge_task t p =
     \<lparr> tid = override (p_tid p) (tid t),
       tcreatedAt = override (p_tcreatedAt p) (tcreatedAt t),
       updatedAt = (case p_updatedAt p of None \<Rightarrow> updatedAt t | Some v \<Rightarrow> Some v),
       status = override (p_status p) (status t),
       isAdminTask = override (p_isAdminTask p) (isAdminTask t),
       userId = (case p_userId p of None \<Rightarrow> userId t | Some v \<Rightarrow> Some v),
       tcols = tcols t ++ p_tcols p \<rparr>"

text \<open>The calls made to \<^verbatim>\<open>../lib/supabase\<close> and \<^verbatim>\<open>../services/task.service\<close>.\<close>

datatype 'v task_call =
    TestConnection
  | FetchTasks string
  | CreateTask string "'v task_patch"
  | UpdateTask string "'v task_patch"
  | DeleteTask string

text \<open>
  Neither module is among the sources at hand, and what they return is the server's
  doing: each service is a parameter, a function of the calls made so far and of its
  arguments, which may reject.
\<close>

record 'v task_env = conn +
  testConnection :: "'v task_call list \<Rightarrow> error + bool"
  fetchTasks :: "'v task_call list \<Rightarrow> string \<Rightarrow> error + 'v task list"
  createTask :: "'v task_call list \<Rightarrow> string \<Rightarrow> 'v task_patch \<Rightarrow> error + 'v task"
  updateTask :: "'v task_call list \<Rightarrow> string \<Rightarrow> 'v task_patch \<Rightarrow> error + 'v task"
  deleteTask :: "'v task_call list \<Rightarrow> string \<Rightarrow> error + unit"

text \<open>
  The hook's state (\<^verbatim>\<open>useState\<close>), the \<^verbatim>\<open>tasks\<close> collection of the database, and
  the remote calls made so far.
\<close>

record 'v tasks_hook =
  tasks :: "'v task list"
  tasksLoading :: bool
  tasksError :: "string option"
  retryCount :: nat
  tasksDB :: "'v task list"
  taskCalls :: "'v task_call list"

text \<open>
  The \<^verbatim>\<open>try\<close> block of \<^verbatim>\<open>loadTasks\<close>: the error thrown, if any, and the state
  reached by then.
\<close>

definition loadTasks_try ::
  "'v task_env \<Rightarrow> string \<Rightarrow> 'v tasks_hook \<Rightarrow> error option \<times> 'v tasks_hook" where
  "loadTasks_try env uid s =
     (if isOffline env then
        (case getAllFromIndexedDB (db env) (tasksDB s) of
           Inl e \<Rightarrow> (Some e, s)
         | Inr offlineTasks \<Rightarrow>
             (None, s\<lparr>tasks := filter (\<lambda>t. userId t = Some uid) offlineTasks\<rparr>))
      else
        (let s1 = s\<lparr>taskCalls := taskCalls s @ [TestConnection]\<rparr> in
         case testConnection env (taskCalls s) of
           Inl e \<Rightarrow> (Some e, s1)
         | Inr False \<Rightarrow> (Some (Failure ''Unable to connect to database''), s1)
         | Inr True \<Rightarrow>
             (let s2 = s1\<lparr>taskCalls := taskCalls s1 @ [FetchTasks uid]\<rparr> in
              case fetchTasks env (taskCalls s1) uid of
                Inl e \<Rightarrow> (Some e, s2)
              | Inr data \<Rightarrow>
                  (let s3 = s2\<lparr>tasks := data\<rparr>;
                       tasksWithUserId = map (\<lambda>t. t\<lparr>userId := Some uid\<rparr>) data
                   in case saveToIndexedDB (db env) tid (Batch tasksWithUserId) (tasksDB s3) of
                        Inl e \<Rightarrow> (Some e, s3)
                      | Inr st \<Rightarrow> (None, s3\<lparr>tasksDB := st\<rparr>)))))"

text \<open>
  The \<^verbatim>\<open>catch\<close> block: the fallback to the database when online, and the retry,
  whose timer bumps \<^verbatim>\<open>retryCount\<close> (the later run of \<^verbatim>\<open>loadTasks\<close> that the bump
  causes is a call of its own).
\<close>

definition loadTasks_catch ::
  "'v task_env \<Rightarrow> string \<Rightarrow> error \<Rightarrow> 'v tasks_hook \<Rightarrow> 'v tasks_hook" where
  "loadTasks_catch env uid e s =
     (let s1 = s\<lparr>tasksError := Some (message_or e ''Failed to load tasks'')\<rparr>;
          s2 = (if \<not> isOffline env then
                  (case getAllFromIndexedDB (db env) (tasksDB s1) of
                     Inl offlineErr \<Rightarrow> s1
                   | Inr offlineTasks \<Rightarrow>
                       (let userTasks = filter (\<lambda>t. userId t = Some uid) offlineTasks
                        in if length userTasks > 0
                           then s1\<lparr>tasks := userTasks, tasksError := None\<rparr>
                           else s1))
                else s1)
      in if \<not> isOffline env \<and> retryCount s2 < 3
         then s2\<lparr>retryCount := retryCount s2 + 1\<rparr> else s2)"

definition loadTasks :: "'v task_env \<Rightarrow> string option \<Rightarrow> 'v tasks_hook \<Rightarrow> 'v tasks_hook" where
  "loadTasks env userId' s =
     (case userId' of
        None \<Rightarrow> s
      | Some uid \<Rightarrow>
          if uid = [] then s
          else (let s0 = s\<lparr>tasksLoading := True, tasksError := None\<rparr>;
                    s' = (case loadTasks_try env uid s0 of
                            (None, s1) \<Rightarrow> s1
                          | (Some e, s1) \<Rightarrow> loadTasks_catch env uid e s1)
                in s'\<lparr>tasksLoading := False\<rparr>))"

text \<open>The \<^verbatim>\<open>catch\<close> block the three mutations share: record the message, rethrow.\<close>

definition task_fail ::
  "error \<Rightarrow> string \<Rightarrow> 'v tasks_hook \<Rightarrow> (error + 'a) \<times> 'v tasks_hook" where
  "task_fail e fallback s = (Inl e, s\<lparr>tasksError := Some (message_or e fallback)\<rparr>)"

text \<open>The object \<^verbatim>\<open>offlineTask\<close> that \<^verbatim>\<open>handleCreateTask\<close> builds while offline.\<close>

definition offline_task :: "'v task_env \<Rightarrow> string \<Rightarrow> 'v task_patch \<Rightarrow> 'v task" where
  "offline_task env uid newTask =
     (let tempId = ''temp_'' @ nowMs env @ ''_'' @ rand env
      in \<lparr> tid = tempId, tcreatedAt = nowIso env, updatedAt = Some (nowIso env),
           status = ''my-tasks'', isAdminTask = False, userId = Some uid,
           tcols = p_tcols newTask \<rparr>)"

definition handleCreateTask ::
  "'v task_env \<Rightarrow> string option \<Rightarrow> 'v task_patch \<Rightarrow> 'v tasks_hook
     \<Rightarrow> (error + 'v task) \<times> 'v tasks_hook" where
  "handleCreateTask env userId' newTask s =
     (case userId' of
        None \<Rightarrow> (Inl (Failure ''User ID is required''), s)
      | Some uid \<Rightarrow>
          if uid = [] then (Inl (Failure ''User ID is required''), s)
          else (let s0 = s\<lparr>tasksError := None\<rparr> in
            if isOffline env then
              (let offlineTask = offline_task env uid newTask
               in case saveToIndexedDB (db env) tid (Single offlineTask) (tasksDB s0) of
                    Inl e \<Rightarrow> task_fail e ''Failed to create task'' s0
                  | Inr st \<Rightarrow>
                      (Inr offlineTask,
                       s0\<lparr>tasksDB := st, tasks := tasks s0 @ [offlineTask]\<rparr>))
            else
              (let s1 = s0\<lparr>taskCalls := taskCalls s0 @ [CreateTask uid newTask]\<rparr> in
               case createTask env (taskCalls s0) uid newTask of
                 Inl e \<Rightarrow> task_fail e ''Failed to create task'' s1
               | Inr result \<Rightarrow>
                   (let s2 = s1\<lparr>tasks := tasks s1 @ [result]\<rparr>;
                        taskWithUserId = result\<lparr>userId := Some uid\<rparr>
                    in case saveToIndexedDB (db env) tid (Single taskWithUserId) (tasksDB s2) of
                         Inl e \<Rightarrow> task_fail e ''Failed to create task'' s2
                       | Inr st \<Rightarrow> (Inr result, s2\<lparr>tasksDB := st\<rparr>)))))"

definition handleUpdateTask ::
  "'v task_env \<Rightarrow> string option \<Rightarrow> string \<Rightarrow> 'v task_patch \<Rightarrow> 'v tasks_hook
     \<Rightarrow> (error + 'v task) \<times> 'v tasks_hook" where
  "handleUpdateTask env userId' taskId updates s =
     (let s0 = s\<lparr>tasksError := None\<rparr> in
      if isOffline env then
        (case getByIdFromIndexedDB (db env) tid taskId (tasksDB s0) of
           Inl e \<Rightarrow> task_fail e ''Failed to update task'' s0
         | Inr None \<Rightarrow> task_fail (Failure ''Task not found'') ''Failed to update task'' s0
         | Inr (Some existingTask) \<Rightarrow>
             (let updatedTask = (merge_task existingTask updates)\<lparr>updatedAt := Some (nowIso env)\<rparr>
              in case saveToIndexedDB (db env) tid (Single updatedTask) (tasksDB s0) of
                   Inl e \<Rightarrow> task_fail e ''Failed to update task'' s0
                 | Inr st \<Rightarrow>
                     (Inr updatedTask,
                      s0\<lparr>tasksDB := st,
                         tasks := map (\<lambda>t. if tid t = taskId then updatedTask else t) (tasks s0)\<rparr>)))
      else
        (let s1 = s0\<lparr>taskCalls := taskCalls s0 @ [UpdateTask taskId updates]\<rparr> in
         case updateTask env (taskCalls s0) taskId updates of
           Inl e \<Rightarrow> task_fail e ''Failed to update task'' s1
         | Inr result \<Rightarrow>
             (let s2 = s1\<lparr>tasks := map (\<lambda>t. if tid t = taskId then result else t) (tasks s1)\<rparr>;
                  taskWithUserId =
                    result\<lparr>userId := Some (case userId' of None \<Rightarrow> [] | Some u \<Rightarrow> u)\<rparr>
              in case saveToIndexedDB (db env) tid (Single taskWithUserId) (tasksDB s2) of
                   Inl e \<Rightarrow> task_fail e ''Failed to update task'' s2
                 | Inr st \<Rightarrow> (Inr result, s2\<lparr>tasksDB := st\<rparr>))))"

definition handleDeleteTask ::
  "'v task_env \<Rightarrow> string \<Rightarrow> 'v tasks_hook \<Rightarrow> (error + bool) \<times> 'v tasks_hook" where
  "handleDeleteTask env taskId s =
     (let s0 = s\<lparr>tasksError := None\<rparr> in
      if isOffline env then
        (case deleteFromIndexedDB (db env) tid taskId (tasksDB s0) of
           Inl e \<Rightarrow> task_fail e ''Failed to delete task'' s0
         | Inr st \<Rightarrow>
             (Inr True, s0\<lparr>tasksDB := st, tasks := filter (\<lambda>t. tid t \<noteq> taskId) (tasks s0)\<rparr>))
      else
        (let s1 = s0\<lparr>taskCalls := taskCalls s0 @ [DeleteTask taskId]\<rparr> in
         case deleteTask env (taskCalls s0) taskId of
           Inl e \<Rightarrow> task_fail e ''Failed to delete task'' s1
         | Inr _ \<Rightarrow>
             (let s2 = s1\<lparr>tasks := filter (\<lambda>t. tid t \<noteq> taskId) (tasks s1)\<rparr>
              in case deleteFromIndexedDB (db env) tid taskId (tasksDB s2) of
                   Inl e \<Rightarrow> task_fail e ''Failed to delete task'' s2
                 | Inr st \<Rightarrow> (Inr True, s2\<lparr>tasksDB := st\<rparr>))))"


section \<open>Routines and their slots (the hook \<^verbatim>\<open>useRoutines\<close>)\<close>

text \<open>
  \<^verbatim>\<open>Routine\<close> and \<^verbatim>\<open>RoutineSlot\<close> (declared in \<^verbatim>\<open>types/routine.ts\<close>, which is
  not among the sources at hand). The fields the hook reads or writes are fields
  of the records, the other columns are the maps \<open>rcols\<close> and \<open>scols\<close>. The three
  flags \<^verbatim>\<open>_isOffline\<close>, \<^verbatim>\<open>_isOfflineUpdated\<close> and \<^verbatim>\<open>_isOfflineDeleted\<close> are only
  ever tested for truth, so a missing flag is \<open>False\<close>; \<^verbatim>\<open>slots\<close> is only ever
  read as \<^verbatim>\<open>slots || []\<close>, \<^verbatim>\<open>slots?.map\<close>, \<^verbatim>\<open>slots?.filter\<close> or
  \<^verbatim>\<open>slots && slots.length > 0\<close>, so a missing list is \<open>[]\<close>.
\<close>

record 'v slot =
  sid :: string
  routineId :: string
  screatedAt :: string
  scols :: "string \<rightharpoonup> 'v"
  s_isOffline :: bool
  s_isOfflineUpdated :: bool
  s_isOfflineDeleted :: bool

record 'v routine =
  rid :: string
  rcreatedAt :: string
  rcols :: "string \<rightharpoonup> 'v"
  slots :: "'v slot list"
  r_isOffline :: bool
  r_isOfflineUpdated :: bool
  r_isOfflineDeleted :: bool

text \<open>
  Objects with some of the keys of a slot or of a routine: \<^verbatim>\<open>Partial<...>\<close>,
  \<^verbatim>\<open>Omit<..., 'id' | 'routineId' | 'createdAt'>\<close>, and what is left of a record
  after \<^verbatim>\<open>const { _isOffline, ...rest } = record\<close>.
\<close>

record 'v slot_patch =
  ps_sid :: "string option"
  ps_routineId :: "string option"
  ps_screatedAt :: "string option"
  ps_scols :: "string \<rightharpoonup> 'v"
  ps_isOffline :: "bool option"
  ps_isOfflineUpdated :: "bool option"
  ps_isOfflineDeleted :: "bool option"

record 'v routine_patch =
  pr_rid :: "string option"
  pr_rcreatedAt :: "string option"
  pr_rcols :: "string \<rightharpoonup> 'v"
  pr_slots :: "'v slot list option"
  pr_isOffline :: "bool option"
  pr_isOfflineUpdated :: "bool option"
  pr_isOfflineDeleted :: "bool option"

text \<open>\<^verbatim>\<open>{ ...slot, ...updates }\<close> and \<^verbatim>\<open>{ ...routine, ...updates }\<close>.\<close>

definition merge_slot :: "'v slot \<Rightarrow> 'v slot_patch \<Rightarrow> 'v slot" where
  "merge_slot sl p =
     \<lparr> sid = override (ps_sid p) (sid sl),
       routineId = override (ps_routineId p) (routineId sl),
       screatedAt = override (ps_screatedAt p) (screatedAt sl),
       scols = scols sl ++ ps_scols p,
       s_isOffline = override (ps_isOffline p) (s_isOffline sl),
       s_isOfflineUpdated = override (ps_isOfflineUpdated p) (s_isOfflineUpdated sl),
       s_isOfflineDeleted = override (ps_isOfflineDeleted p) (s_isOfflineDeleted sl) \<rparr>"

definition merge_routine :: "'v routine \<Rightarrow> 'v routine_patch \<Rightarrow> 'v routine" where
  "merge_routine r p =
     \<lparr> rid = override (pr_rid p) (rid r),
       rcreatedAt = override (pr_rcreatedAt p) (rcreatedAt r),
       rcols = rcols r ++ pr_rcols p,
       slots = override (pr_slots p) (slots r),
       r_isOffline = override (pr_isOffline p) (r_isOffline r),
       r_isOfflineUpdated = override (pr_isOfflineUpdated p) (r_isOfflineUpdated r),
       r_isOfflineDeleted = override (pr_isOfflineDeleted p) (r_isOfflineDeleted r) \<rparr>"

text \<open>
  \<^verbatim>\<open>{ ...slot }\<close> and \<^verbatim>\<open>{ ...routine }\<close> alone: the keys the object has, over an
  object with none.
\<close>

definition spread_slot :: "'v slot_patch \<Rightarrow> 'v slot" where
  "spread_slot p =
     merge_slot \<lparr> sid = [], routineId = [], screatedAt = [], scols = Map.empty,
       s_isOffline = False, s_isOfflineUpdated = False, s_isOfflineDeleted = False \<rparr> p"

definition spread_routine :: "'v routine_patch \<Rightarrow> 'v routine" where
  "spread_routine p =
     merge_routine \<lparr> rid = [], rcreatedAt = [], rcols = Map.empty, slots = [],
       r_isOffline = False, r_isOfflineUpdated = False, r_isOfflineDeleted = False \<rparr> p"

text \<open>
  A whole record handed over where an object with optional keys is expected. A flag
  is a key of the object when it is set.
\<close>

definition flag_key :: "bool \<Rightarrow> bool option" where
  "flag_key b = (if b then Some True else None)"

definition slot_object :: "'v slot \<Rightarrow> 'v slot_patch" where
  "slot_object sl =
     \<lparr> ps_sid = Some (sid sl), ps_routineId = Some (routineId sl),
       ps_screatedAt = Some (screatedAt sl), ps_scols = scols sl,
       ps_isOffline = flag_key (s_isOffline sl),
       ps_isOfflineUpdated = flag_key (s_isOfflineUpdated sl),
       ps_isOfflineDeleted = flag_key (s_isOfflineDeleted sl) \<rparr>"

definition routine_object :: "'v routine \<Rightarrow> 'v routine_patch" where
  "routine_object r =
     \<lparr> pr_rid = Some (rid r), pr_rcreatedAt = Some (rcreatedAt r), pr_rcols = rcols r,
       pr_slots = Some (slots r),
       pr_isOffline = flag_key (r_isOffline r),
       pr_isOfflineUpdated = flag_key (r_isOfflineUpdated r),
       pr_isOfflineDeleted = flag_key (r_isOfflineDeleted r) \<rparr>"

text \<open>
  The calls made to \<^verbatim>\<open>../services/routine.service\<close>. Its functions hand their
  arguments to the hosted database and rethrow its errors; what comes back is the
  server's doing, so each of them is a parameter as well.
\<close>

datatype 'v routine_call =
    FetchRoutines
  | CreateRoutine "'v routine_patch"
  | UpdateRoutine string "'v routine_patch"
  | DeleteRoutine string
  | AddRoutineSlot string "'v slot_patch"
  | UpdateRoutineSlot string string "'v slot_patch"
  | DeleteRoutineSlot string string

record 'v routine_env = conn +
  fetchRoutines :: "'v routine_call list \<Rightarrow> error + 'v routine list"
  createRoutineService ::
    "'v routine_call list \<Rightarrow> 'v routine_patch \<Rightarrow> error + 'v routine"
  updateRoutineService ::
    "'v routine_call list \<Rightarrow> string \<Rightarrow> 'v routine_patch \<Rightarrow> error + unit"
  deleteRoutineService :: "'v routine_call list \<Rightarrow> string \<Rightarrow> error + unit"
  addRoutineSlotService ::
    "'v routine_call list \<Rightarrow> string \<Rightarrow> 'v slot_patch \<Rightarrow> error + 'v slot"
  updateRoutineSlotService ::
    "'v routine_call list \<Rightarrow> string \<Rightarrow> string \<Rightarrow> 'v slot_patch \<Rightarrow> error + unit"
  deleteRoutineSlotService ::
    "'v routine_call list \<Rightarrow> string \<Rightarrow> string \<Rightarrow> error + unit"

record 'v routines_hook =
  routines :: "'v routine list"
  routinesLoading :: bool
  routinesError :: "string option"
  routinesDB :: "'v routine list"
  routineCalls :: "'v routine_call list"

text \<open>The \<^verbatim>\<open>catch\<close> block of every mutation: \<^verbatim>\<open>setError(err.message); throw err\<close>.\<close>

definition routine_fail ::
  "error \<Rightarrow> 'v routines_hook \<Rightarrow> (error + 'a) \<times> 'v routines_hook" where
  "routine_fail e s = (Inl e, s\<lparr>routinesError := Some (message e)\<rparr>)"

definition loadRoutines_try ::
  "'v routine_env \<Rightarrow> 'v routines_hook \<Rightarrow> error option \<times> 'v routines_hook" where
  "loadRoutines_try env s =
     (if isOffline env then
        (case getAllFromIndexedDB (db env) (routinesDB s) of
           Inl e \<Rightarrow> (Some e, s)
         | Inr offlineRoutines \<Rightarrow>
             if length offlineRoutines > 0
             then (None, s\<lparr>routines := offlineRoutines\<rparr>)
             else (None, s\<lparr>routines := []\<rparr>))
      else
        (let s1 = s\<lparr>routineCalls := routineCalls s @ [FetchRoutines]\<rparr> in
         case fetchRoutines env (routineCalls s) of
           Inl e \<Rightarrow> (Some e, s1)
         | Inr data \<Rightarrow>
             (let s2 = s1\<lparr>routines := data\<rparr> in
              if length data > 0 then
                (case saveToIndexedDB (db env) rid (Batch data) (routinesDB s2) of
                   Inl e \<Rightarrow> (Some e, s2)
                 | Inr st \<Rightarrow> (None, s2\<lparr>routinesDB := st\<rparr>))
              else (None, s2))))"

definition loadRoutines_catch ::
  "'v routine_env \<Rightarrow> error \<Rightarrow> 'v routines_hook \<Rightarrow> 'v routines_hook" where
  "loadRoutines_catch env e s =
     (let s1 = s\<lparr>routinesError := Some (message e)\<rparr> in
      if \<not> isOffline env then
        (case getAllFromIndexedDB (db env) (routinesDB s1) of
           Inl offlineErr \<Rightarrow> s1
         | Inr offlineRoutines \<Rightarrow>
             if length offlineRoutines > 0 then s1\<lparr>routines := offlineRoutines\<rparr> else s1)
      else s1)"

definition loadRoutines :: "'v routine_env \<Rightarrow> 'v routines_hook \<Rightarrow> 'v routines_hook" where
  "loadRoutines env s =
     (let s0 = s\<lparr>routinesLoading := True\<rparr>;
          s' = (case loadRoutines_try env s0 of
                  (None, s1) \<Rightarrow> s1
                | (Some e, s1) \<Rightarrow> loadRoutines_catch env e s1)
      in s'\<lparr>routinesLoading := False\<rparr>)"

text \<open>The object \<^verbatim>\<open>offlineRoutine\<close> that \<^verbatim>\<open>createRoutine\<close> builds while offline.\<close>

definition offline_routine :: "'v routine_env \<Rightarrow> 'v routine_patch \<Rightarrow> 'v routine" where
  "offline_routine env routine =
     (let tempId = ''temp-'' @ nowMs env @ ''-'' @ rand env
      in (spread_routine routine)
           \<lparr> rid := tempId, rcreatedAt := nowIso env, slots := [], r_isOffline := True \<rparr>)"

definition createRoutine ::
  "'v routine_env \<Rightarrow> 'v routine_patch \<Rightarrow> 'v routines_hook
     \<Rightarrow> (error + 'v routine) \<times> 'v routines_hook" where
  "createRoutine env routine s =
     (let s0 = s\<lparr>routinesError := None\<rparr> in
      if isOffline env then
        (let offlineRoutine = offline_routine env routine
         in case saveToIndexedDB (db env) rid (Single offlineRoutine) (routinesDB s0) of
              Inl e \<Rightarrow> routine_fail e s0
            | Inr st \<Rightarrow>
                (Inr offlineRoutine,
                 s0\<lparr>routinesDB := st, routines := offlineRoutine # routines s0\<rparr>))
      else
        (let s1 = s0\<lparr>routineCalls := routineCalls s0 @ [CreateRoutine routine]\<rparr> in
         case createRoutineService env (routineCalls s0) routine of
           Inl e \<Rightarrow> routine_fail e s1
         | Inr newRoutine \<Rightarrow>
             (let s2 = s1\<lparr>routines := newRoutine # routines s1\<rparr> in
              case saveToIndexedDB (db env) rid (Single newRoutine) (routinesDB s2) of
                Inl e \<Rightarrow> routine_fail e s2
              | Inr st \<Rightarrow> (Inr newRoutine, s2\<lparr>routinesDB := st\<rparr>))))"

definition updateRoutine ::
  "'v routine_env \<Rightarrow> string \<Rightarrow> 'v routine_patch \<Rightarrow> 'v routines_hook
     \<Rightarrow> (error + unit) \<times> 'v routines_hook" where
  "updateRoutine env id' updates s =
     (let s0 = s\<lparr>routinesError := None\<rparr>;
          merged = map (\<lambda>routine. if rid routine = id' then merge_routine routine updates
                                   else routine)
      in
      if isOffline env then
        (case getAllFromIndexedDB (db env) (routinesDB s0) of
           Inl e \<Rightarrow> routine_fail e s0
         | Inr existingRoutines \<Rightarrow>
             (case find (\<lambda>r. rid r = id') existingRoutines of
                None \<Rightarrow> (Inr (), s0)
              | Some routineToUpdate \<Rightarrow>
                  (let updatedRoutine =
                         (merge_routine routineToUpdate updates)\<lparr>r_isOfflineUpdated := True\<rparr>
                   in case saveToIndexedDB (db env) rid (Single updatedRoutine) (routinesDB s0) of
                        Inl e \<Rightarrow> routine_fail e s0
                      | Inr st \<Rightarrow>
                          (Inr (), s0\<lparr>routinesDB := st, routines := merged (routines s0)\<rparr>))))
      else
        (let s1 = s0\<lparr>routineCalls := routineCalls s0 @ [UpdateRoutine id' updates]\<rparr> in
         case updateRoutineService env (routineCalls s0) id' updates of
           Inl e \<Rightarrow> routine_fail e s1
         | Inr _ \<Rightarrow>
             (let s2 = s1\<lparr>routines := merged (routines s1)\<rparr> in
              case getAllFromIndexedDB (db env) (routinesDB s2) of
                Inl e \<Rightarrow> routine_fail e s2
              | Inr existingRoutines \<Rightarrow>
                  (case find (\<lambda>r. rid r = id') existingRoutines of
                     None \<Rightarrow> (Inr (), s2)
                   | Some routineToUpdate \<Rightarrow>
                       (case saveToIndexedDB (db env) rid
                               (Single (merge_routine routineToUpdate updates)) (routinesDB s2) of
                          Inl e \<Rightarrow> routine_fail e s2
                        | Inr st \<Rightarrow> (Inr (), s2\<lparr>routinesDB := st\<rparr>))))))"

text \<open>
  Online, the database is brought up to date inside a \<^verbatim>\<open>try\<close> of its own, whose
  \<^verbatim>\<open>catch\<close> only logs.
\<close>

definition deleteRoutine ::
  "'v routine_env \<Rightarrow> string \<Rightarrow> 'v routines_hook \<Rightarrow> (error + unit) \<times> 'v routines_hook" where
  "deleteRoutine env id' s =
     (let s0 = s\<lparr>routinesError := None\<rparr> in
      if isOffline env then
        (case getAllFromIndexedDB (db env) (routinesDB s0) of
           Inl e \<Rightarrow> routine_fail e s0
         | Inr existingRoutines \<Rightarrow>
             (case (case find (\<lambda>r. rid r = id') existingRoutines of
                      None \<Rightarrow> Inr (routinesDB s0)
                    | Some routineToDelete \<Rightarrow>
                        saveToIndexedDB (db env) rid
                          (Single (routineToDelete\<lparr>r_isOfflineDeleted := True\<rparr>))
                          (routinesDB s0)) of
                Inl e \<Rightarrow> routine_fail e s0
              | Inr st \<Rightarrow>
                  (Inr (), s0\<lparr>routinesDB := st,
                              routines := filter (\<lambda>routine. rid routine \<noteq> id') (routines s0)\<rparr>)))
      else
        (let s1 = s0\<lparr>routineCalls := routineCalls s0 @ [DeleteRoutine id']\<rparr> in
         case deleteRoutineService env (routineCalls s0) id' of
           Inl e \<Rightarrow> routine_fail e s1
         | Inr _ \<Rightarrow>
             (let s2 = s1\<lparr>routines := filter (\<lambda>routine. rid routine \<noteq> id') (routines s1)\<rparr> in
              case getAllFromIndexedDB (db env) (routinesDB s2) of
                Inl dbErr \<Rightarrow> (Inr (), s2)
              | Inr existingRoutines \<Rightarrow>
                  (let updatedRoutines = filter (\<lambda>r. rid r \<noteq> id') existingRoutines in
                   case saveToIndexedDB (db env) rid (Batch updatedRoutines) (routinesDB s2) of
                     Inl dbErr \<Rightarrow> (Inr (), s2)
                   | Inr st \<Rightarrow> (Inr (), s2\<lparr>routinesDB := st\<rparr>)))))"

definition addRoutineSlot ::
  "'v routine_env \<Rightarrow> string \<Rightarrow> 'v slot_patch \<Rightarrow> 'v routines_hook
     \<Rightarrow> (error + 'v slot) \<times> 'v routines_hook" where
  "addRoutineSlot env routineId' slot s =
     (let s0 = s\<lparr>routinesError := None\<rparr>;
          with_slot = (\<lambda>newSlot. map (\<lambda>r. if rid r = routineId'
                                            then r\<lparr>slots := slots r @ [newSlot]\<rparr> else r))
      in
      if isOffline env then
        (let tempId = ''temp-slot-'' @ nowMs env @ ''-'' @ rand env;
             newSlot = (spread_slot slot)
               \<lparr> sid := tempId, routineId := routineId', screatedAt := nowIso env,
                 s_isOffline := True \<rparr>
         in case getAllFromIndexedDB (db env) (routinesDB s0) of
              Inl e \<Rightarrow> routine_fail e s0
            | Inr updatedRoutines \<Rightarrow>
                (case findIndex (\<lambda>r. rid r = routineId') updatedRoutines of
                   None \<Rightarrow> routine_fail (Failure ''Routine not found'') s0
                 | Some routineIndex \<Rightarrow>
                     (let routine = updatedRoutines ! routineIndex;
                          updatedRoutine = routine\<lparr>slots := slots routine @ [newSlot]\<rparr>
                      in case saveToIndexedDB (db env) rid
                                (Batch (updatedRoutines[routineIndex := updatedRoutine]))
                                (routinesDB s0) of
                           Inl e \<Rightarrow> routine_fail e s0
                         | Inr st \<Rightarrow>
                             (Inr newSlot,
                              s0\<lparr>routinesDB := st,
                                 routines := with_slot newSlot (routines s0)\<rparr>))))
      else
        (let s1 = s0\<lparr>routineCalls := routineCalls s0 @ [AddRoutineSlot routineId' slot]\<rparr> in
         case addRoutineSlotService env (routineCalls s0) routineId' slot of
           Inl e \<Rightarrow> routine_fail e s1
         | Inr newSlot \<Rightarrow>
             (let s2 = s1\<lparr>routines := with_slot newSlot (routines s1)\<rparr> in
              case getAllFromIndexedDB (db env) (routinesDB s2) of
                Inl dbErr \<Rightarrow> (Inr newSlot, s2)
              | Inr existingRoutines \<Rightarrow>
                  (case find (\<lambda>r. rid r = routineId') existingRoutines of
                     None \<Rightarrow> (Inr newSlot, s2)
                   | Some routineToUpdate \<Rightarrow>
                       (case saveToIndexedDB (db env) rid
                               (Single (routineToUpdate
                                  \<lparr>slots := slots routineToUpdate @ [newSlot]\<rparr>))
                               (routinesDB s2) of
                          Inl dbErr \<Rightarrow> (Inr newSlot, s2)
                        | Inr st \<Rightarrow> (Inr newSlot, s2\<lparr>routinesDB := st\<rparr>))))))"

definition updateRoutineSlot ::
  "'v routine_env \<Rightarrow> string \<Rightarrow> string \<Rightarrow> 'v slot_patch \<Rightarrow> 'v routines_hook
     \<Rightarrow> (error + unit) \<times> 'v routines_hook" where
  "updateRoutineSlot env routineId' slotId updates s =
     (let s0 = s\<lparr>routinesError := None\<rparr>;
          merged = map (\<lambda>r. if rid r = routineId'
                             then r\<lparr>slots := map (\<lambda>slot. if sid slot = slotId
                                                           then merge_slot slot updates else slot)
                                                 (slots r)\<rparr>
                             else r)
      in
      if isOffline env then
        (case getAllFromIndexedDB (db env) (routinesDB s0) of
           Inl e \<Rightarrow> routine_fail e s0
         | Inr existingRoutines \<Rightarrow>
             (case findIndex (\<lambda>r. rid r = routineId') existingRoutines of
                None \<Rightarrow> (Inr (), s0)
              | Some routineIndex \<Rightarrow>
                  (let routine = existingRoutines ! routineIndex;
                       updatedRoutine = routine
                         \<lparr>slots := map (\<lambda>slot. if sid slot = slotId
                                               then (merge_slot slot updates)
                                                      \<lparr>s_isOfflineUpdated := True\<rparr>
                                               else slot)
                                     (slots routine)\<rparr>
                   in case saveToIndexedDB (db env) rid
                             (Batch (existingRoutines[routineIndex := updatedRoutine]))
                             (routinesDB s0) of
                        Inl e \<Rightarrow> routine_fail e s0
                      | Inr st \<Rightarrow>
                          (Inr (), s0\<lparr>routinesDB := st, routines := merged (routines s0)\<rparr>))))
      else
        (let s1 = s0\<lparr>routineCalls :=
                        routineCalls s0 @ [UpdateRoutineSlot routineId' slotId updates]\<rparr> in
         case updateRoutineSlotService env (routineCalls s0) routineId' slotId updates of
           Inl e \<Rightarrow> routine_fail e s1
         | Inr _ \<Rightarrow>
             (let s2 = s1\<lparr>routines := merged (routines s1)\<rparr> in
              case getAllFromIndexedDB (db env) (routinesDB s2) of
                Inl dbErr \<Rightarrow> (Inr (), s2)
              | Inr existingRoutines \<Rightarrow>
                  (case findIndex (\<lambda>r. rid r = routineId') existingRoutines of
                     None \<Rightarrow> (Inr (), s2)
                   | Some routineIndex \<Rightarrow>
                       (let routine = existingRoutines ! routineIndex;
                            updatedRoutine = routine
                              \<lparr>slots := map (\<lambda>slot. if sid slot = slotId
                                                    then merge_slot slot updates else slot)
                                          (slots routine)\<rparr>
                        in case saveToIndexedDB (db env) rid
                                  (Batch (existingRoutines[routineIndex := updatedRoutine]))
                                  (routinesDB s2) of
                             Inl dbErr \<Rightarrow> (Inr (), s2)
                           | Inr st \<Rightarrow> (Inr (), s2\<lparr>routinesDB := st\<rparr>))))))"

definition deleteRoutineSlot ::
  "'v routine_env \<Rightarrow> string \<Rightarrow> string \<Rightarrow> 'v routines_hook
     \<Rightarrow> (error + unit) \<times> 'v routines_hook" where
  "deleteRoutineSlot env routineId' slotId s =
     (let s0 = s\<lparr>routinesError := None\<rparr>;
          without = map (\<lambda>routine. if rid routine = routineId'
                                    then routine\<lparr>slots := filter (\<lambda>slot. sid slot \<noteq> slotId)
                                                               (slots routine)\<rparr>
                                    else routine)
      in
      if isOffline env then
        (case getAllFromIndexedDB (db env) (routinesDB s0) of
           Inl e \<Rightarrow> routine_fail e s0
         | Inr existingRoutines \<Rightarrow>
             (case (case findIndex (\<lambda>r. rid r = routineId') existingRoutines of
                      None \<Rightarrow> Inr (routinesDB s0)
                    | Some routineIndex \<Rightarrow>
                        (let routine = existingRoutines ! routineIndex;
                             updatedSlots =
                               filter (\<lambda>slot. \<not> (sid slot = slotId \<and> s_isOffline slot))
                                 (map (\<lambda>slot. if sid slot = slotId
                                              then slot\<lparr>s_isOfflineDeleted := True\<rparr> else slot)
                                      (slots routine));
                             updatedRoutine = routine\<lparr>slots := updatedSlots\<rparr>
                         in saveToIndexedDB (db env) rid
                              (Batch (existingRoutines[routineIndex := updatedRoutine]))
                              (routinesDB s0))) of
                Inl e \<Rightarrow> routine_fail e s0
              | Inr st \<Rightarrow> (Inr (), s0\<lparr>routinesDB := st, routines := without (routines s0)\<rparr>)))
      else
        (let s1 = s0\<lparr>routineCalls := routineCalls s0 @ [DeleteRoutineSlot routineId' slotId]\<rparr> in
         case deleteRoutineSlotService env (routineCalls s0) routineId' slotId of
           Inl e \<Rightarrow> routine_fail e s1
         | Inr _ \<Rightarrow>
             (let s2 = s1\<lparr>routines := without (routines s1)\<rparr> in
              case getAllFromIndexedDB (db env) (routinesDB s2) of
                Inl dbErr \<Rightarrow> (Inr (), s2)
              | Inr existingRoutines \<Rightarrow>
                  (case findIndex (\<lambda>r. rid r = routineId') existingRoutines of
                     None \<Rightarrow> (Inr (), s2)
                   | Some routineIndex \<Rightarrow>
                       (let routine = existingRoutines ! routineIndex;
                            updatedRoutine = routine
                              \<lparr>slots := filter (\<lambda>slot. sid slot \<noteq> slotId) (slots routine)\<rparr>
                        in case saveToIndexedDB (db env) rid
                                  (Batch (existingRoutines[routineIndex := updatedRoutine]))
                                  (routinesDB s2) of
                             Inl dbErr \<Rightarrow> (Inr (), s2)
                           | Inr st \<Rightarrow> (Inr (), s2\<lparr>routinesDB := st\<rparr>))))))"

subsection \<open>\<^verbatim>\<open>syncOfflineChanges\<close>\<close>

text \<open>
  One turn of the inner loop \<^verbatim>\<open>for (const slot of routine.slots)\<close>. The loop carries
  \<^verbatim>\<open>syncedSlots\<close>, \<^verbatim>\<open>slotsChanged\<close> and the calls made so far; every
  \<^verbatim>\<open>catch\<close> only logs.
\<close>

fun sync_slot ::
  "'v routine_env \<Rightarrow> 'v routine \<Rightarrow> 'v slot list \<times> bool \<times> 'v routine_call list
     \<Rightarrow> 'v slot \<Rightarrow> 'v slot list \<times> bool \<times> 'v routine_call list" where
  "sync_slot env routine (syncedSlots, slotsChanged, calls) slot =
     (if s_isOfflineDeleted slot then
        (let calls' = calls @ [DeleteRoutineSlot (rid routine) (sid slot)] in
         case deleteRoutineSlotService env calls (rid routine) (sid slot) of
           Inl err \<Rightarrow> (syncedSlots, slotsChanged, calls')
         | Inr _ \<Rightarrow>
             (case findIndex (\<lambda>s. sid s = sid slot) syncedSlots of
                None \<Rightarrow> (syncedSlots, slotsChanged, calls')
              | Some slotIndex \<Rightarrow> (splice1 slotIndex syncedSlots, True, calls')))
      else if s_isOffline slot then
        (let slotData = (slot_object slot)
               \<lparr> ps_isOffline := None, ps_sid := None, ps_routineId := None,
                 ps_screatedAt := None \<rparr>;
             calls' = calls @ [AddRoutineSlot (rid routine) slotData]
         in case addRoutineSlotService env calls (rid routine) slotData of
              Inl err \<Rightarrow> (syncedSlots, slotsChanged, calls')
            | Inr newSlot \<Rightarrow>
                (case findIndex (\<lambda>s. sid s = sid slot) syncedSlots of
                   None \<Rightarrow> (syncedSlots, slotsChanged, calls')
                 | Some slotIndex \<Rightarrow> (syncedSlots[slotIndex := newSlot], True, calls')))
      else if s_isOfflineUpdated slot then
        (let slotData = slot\<lparr>s_isOfflineUpdated := False\<rparr>;
             calls' = calls @ [UpdateRoutineSlot (rid routine) (sid slot) (slot_object slotData)]
         in case updateRoutineSlotService env calls (rid routine) (sid slot)
                   (slot_object slotData) of
              Inl err \<Rightarrow> (syncedSlots, slotsChanged, calls')
            | Inr _ \<Rightarrow>
                (case findIndex (\<lambda>s. sid s = sid slot) syncedSlots of
                   None \<Rightarrow> (syncedSlots, slotsChanged, calls')
                 | Some slotIndex \<Rightarrow>
                     (syncedSlots[slotIndex :=
                        slotData\<lparr>sid := sid slot, routineId := rid routine\<rparr>],
                      True, calls')))
      else (syncedSlots, slotsChanged, calls))"

text \<open>
  The part of the outer loop's body that deals with the slots of \<open>routine\<close>; the
  outer loop carries \<^verbatim>\<open>syncedRoutines\<close>, \<^verbatim>\<open>hasChanges\<close> and the calls made so far.
\<close>

definition sync_slots ::
  "'v routine_env \<Rightarrow> 'v routine \<Rightarrow> 'v routine list \<times> bool \<times> 'v routine_call list
     \<Rightarrow> 'v routine list \<times> bool \<times> 'v routine_call list" where
  "sync_slots env routine st =
     (case st of (syncedRoutines, hasChanges, calls) \<Rightarrow>
        if length (slots routine) > 0 then
          (case foldl (sync_slot env routine) (slots routine, False, calls) (slots routine) of
             (syncedSlots, slotsChanged, calls') \<Rightarrow>
               if slotsChanged then
                 (case findIndex (\<lambda>r. rid r = rid routine) syncedRoutines of
                    None \<Rightarrow> (syncedRoutines, hasChanges, calls')
                  | Some routineIndex \<Rightarrow>
                      (syncedRoutines[routineIndex :=
                         (syncedRoutines ! routineIndex)\<lparr>slots := syncedSlots\<rparr>],
                       True, calls'))
               else (syncedRoutines, hasChanges, calls'))
        else st)"

text \<open>One turn of the outer loop \<^verbatim>\<open>for (const routine of offlineRoutines)\<close>.\<close>

fun sync_routine ::
  "'v routine_env \<Rightarrow> 'v routine list \<times> bool \<times> 'v routine_call list
     \<Rightarrow> 'v routine \<Rightarrow> 'v routine list \<times> bool \<times> 'v routine_call list" where
  "sync_routine env (syncedRoutines, hasChanges, calls) routine =
     (if r_isOfflineDeleted routine then
        (let calls' = calls @ [DeleteRoutine (rid routine)] in
         case deleteRoutineService env calls (rid routine) of
           Inl err \<Rightarrow> (syncedRoutines, hasChanges, calls')
         | Inr _ \<Rightarrow>
             (filter (\<lambda>r. rid r \<noteq> rid routine) syncedRoutines, True, calls'))
      else if r_isOffline routine then
        (let routineData = routine_object (routine\<lparr>r_isOffline := False\<rparr>);
             calls' = calls @ [CreateRoutine routineData]
         in case createRoutineService env calls routineData of
              Inl err \<Rightarrow> (syncedRoutines, hasChanges, calls')
            | Inr newRoutine \<Rightarrow>
                (filter (\<lambda>r. rid r \<noteq> rid routine) syncedRoutines @ [newRoutine], True, calls'))
      else
        sync_slots env routine
          (if r_isOfflineUpdated routine then
             (let routineData = routine\<lparr>r_isOfflineUpdated := False\<rparr>;
                  calls' = calls @ [UpdateRoutine (rid routine) (routine_object routineData)]
              in case updateRoutineService env calls (rid routine) (routine_object routineData) of
                   Inl err \<Rightarrow> (syncedRoutines, hasChanges, calls')
                 | Inr _ \<Rightarrow>
                     (case findIndex (\<lambda>r. rid r = rid routine) syncedRoutines of
                        None \<Rightarrow> (syncedRoutines, hasChanges, calls')
                      | Some index \<Rightarrow> (syncedRoutines[index := routineData], True, calls')))
           else (syncedRoutines, hasChanges, calls)))"

text \<open>
  The whole function. A rejection of \<^verbatim>\<open>getAllFromIndexedDB\<close> or of the final
  \<^verbatim>\<open>saveToIndexedDB\<close> reaches the outer \<^verbatim>\<open>catch\<close>; the calls already made to the
  remote service stay made.
\<close>

definition syncOfflineChanges ::
  "'v routine_env \<Rightarrow> 'v routines_hook \<Rightarrow> 'v routines_hook" where
  "syncOfflineChanges env s =
     (if isOffline env then s
      else
        (case getAllFromIndexedDB (db env) (routinesDB s) of
           Inl err \<Rightarrow> s\<lparr>routinesError := Some ''Failed to sync offline changes''\<rparr>
         | Inr offlineRoutines \<Rightarrow>
             (case foldl (sync_routine env) (offlineRoutines, False, routineCalls s)
                     offlineRoutines of
                (syncedRoutines, hasChanges, calls') \<Rightarrow>
                  (let s1 = s\<lparr>routineCalls := calls'\<rparr> in
                   if hasChanges then
                     (case saveToIndexedDB (db env) rid (Batch syncedRoutines) (routinesDB s1) of
                        Inl err \<Rightarrow> s1\<lparr>routinesError := Some ''Failed to sync offline changes''\<rparr>
                      | Inr st \<Rightarrow> s1\<lparr>routinesDB := st, routines := syncedRoutines\<rparr>)
                   else s1))))"

section \<open>Concrete states and environments\<close>

text \<open>Two stored tasks of two users, and a tasks hook whose view is empty.\<close>

definition task_u1 :: "string task" where
  "task_u1 = \<lparr> tid = ''a1'', tcreatedAt = ''2025-01-01'', updatedAt = None,
     status = ''my-tasks'', isAdminTask = False, userId = Some ''u1'',
     tcols = [''title'' \<mapsto> ''Essay''] \<rparr>"

definition task_u2 :: "string task" where
  "task_u2 = \<lparr> tid = ''a2'', tcreatedAt = ''2025-01-02'', updatedAt = None,
     status = ''my-tasks'', isAdminTask = False, userId = Some ''u2'',
     tcols = [''title'' \<mapsto> ''Quiz''] \<rparr>"

definition tasks_two_users :: "string tasks_hook" where
  "tasks_two_users = \<lparr> tasks = [], tasksLoading = False, tasksError = None,
     retryCount = 0, tasksDB = [task_u1, task_u2], taskCalls = [] \<rparr>"

text \<open>A remote side that rejects every call, seen offline and online.\<close>

definition tenv_down :: "bool \<Rightarrow> string task_env" where
  "tenv_down offline = \<lparr> isOffline = offline, db = Healthy, nowMs = ''1736500000000'',
     rand = ''k3x9q2a'', nowIso = ''2025-01-10T09:06:40.000Z'',
     testConnection = (\<lambda>calls. Inr False),
     fetchTasks = (\<lambda>calls uid. Inl (RemoteError ''down'')),
     createTask = (\<lambda>calls uid newTask. Inl (RemoteError ''down'')),
     updateTask = (\<lambda>calls taskId updates. Inl (RemoteError ''down'')),
     deleteTask = (\<lambda>calls taskId. Inl (RemoteError ''down'')) \<rparr>"

text \<open>The same for the routines: a stored, synced routine without slots.\<close>

definition routine_srv7 :: "string routine" where
  "routine_srv7 = \<lparr> rid = ''srv-7'', rcreatedAt = ''2025-01-03'',
     rcols = [''name'' \<mapsto> ''Spring''], slots = [],
     r_isOffline = False, r_isOfflineUpdated = False, r_isOfflineDeleted = False \<rparr>"

definition routines_one_synced :: "string routines_hook" where
  "routines_one_synced = \<lparr> routines = [routine_srv7], routinesLoading = False,
     routinesError = None, routinesDB = [routine_srv7], routineCalls = [] \<rparr>"

definition renv_down :: "bool \<Rightarrow> string routine_env" where
  "renv_down offline = \<lparr> isOffline = offline, db = Healthy, nowMs = ''1736500000000'',
     rand = ''k3x9q2a'', nowIso = ''2025-01-10T09:06:40.000Z'',
     fetchRoutines = (\<lambda>calls. Inl (RemoteError ''down'')),
     createRoutineService = (\<lambda>calls routine. Inl (RemoteError ''down'')),
     updateRoutineService = (\<lambda>calls id' updates. Inl (RemoteError ''down'')),
     deleteRoutineService = (\<lambda>calls id'. Inl (RemoteError ''down'')),
     addRoutineSlotService = (\<lambda>calls routineId' slot. Inl (RemoteError ''down'')),
     updateRoutineSlotService = (\<lambda>calls routineId' slotId updates. Inl (RemoteError ''down'')),
     deleteRoutineSlotService = (\<lambda>calls routineId' slotId. Inl (RemoteError ''down'')) \<rparr>"

text \<open>Objects with no key at all.\<close>

definition no_task_keys :: "string task_patch" where
  "no_task_keys = \<lparr> p_tid = None, p_tcreatedAt = None, p_updatedAt = None, p_status = None,
     p_isAdminTask = None, p_userId = None, p_tcols = Map.empty \<rparr>"

definition no_routine_keys :: "string routine_patch" where
  "no_routine_keys = \<lparr> pr_rid = None, pr_rcreatedAt = None, pr_rcols = Map.empty,
     pr_slots = None, pr_isOffline = None, pr_isOfflineUpdated = None,
     pr_isOfflineDeleted = None \<rparr>"

definition no_slot_keys :: "string slot_patch" where
  "no_slot_keys = \<lparr> ps_sid = None, ps_routineId = None, ps_screatedAt = None,
     ps_scols = Map.empty, ps_isOffline = None, ps_isOfflineUpdated = None,
     ps_isOfflineDeleted = None \<rparr>"

text \<open>
  A remote side that accepts every call. A fetch returns one record the local store
  has not seen yet; a create returns a record under a server's identifier.
\<close>

definition task_b7 :: "string task" where
  "task_b7 = \<lparr> tid = ''b7'', tcreatedAt = ''2025-01-05'', updatedAt = None,
     status = ''my-tasks'', isAdminTask = False, userId = None,
     tcols = [''title'' \<mapsto> ''Reading''] \<rparr>"

definition tenv_up :: "string task_env" where
  "tenv_up = \<lparr> isOffline = False, db = Healthy, nowMs = ''1736600000000'',
     rand = ''p0o9i8u'', nowIso = ''2025-01-11T12:53:20.000Z'',
     testConnection = (\<lambda>calls. Inr True),
     fetchTasks = (\<lambda>calls uid. Inr [task_b7]),
     createTask = (\<lambda>calls uid newTask.
        Inr \<lparr> tid = ''b8'', tcreatedAt = ''2025-01-11'', updatedAt = None,
              status = ''my-tasks'', isAdminTask = False, userId = None,
              tcols = p_tcols newTask \<rparr>),
     updateTask = (\<lambda>calls taskId updates. Inr task_b7),
     deleteTask = (\<lambda>calls taskId. Inr ()) \<rparr>"

definition routine_srv9 :: "string routine" where
  "routine_srv9 = \<lparr> rid = ''srv-9'', rcreatedAt = ''2025-01-11'',
     rcols = [''name'' \<mapsto> ''Autumn''], slots = [],
     r_isOffline = False, r_isOfflineUpdated = False, r_isOfflineDeleted = False \<rparr>"

definition renv_up :: "string routine_env" where
  "renv_up = \<lparr> isOffline = False, db = Healthy, nowMs = ''1736600000000'',
     rand = ''p0o9i8u'', nowIso = ''2025-01-11T12:53:20.000Z'',
     fetchRoutines = (\<lambda>calls. Inr [routine_srv9]),
     createRoutineService = (\<lambda>calls routine.
        Inr \<lparr> rid = ''srv-9'', rcreatedAt = ''2025-01-11'', rcols = pr_rcols routine,
              slots = [], r_isOffline = False, r_isOfflineUpdated = False,
              r_isOfflineDeleted = False \<rparr>),
     updateRoutineService = (\<lambda>calls id' updates. Inr ()),
     deleteRoutineService = (\<lambda>calls id'. Inr ()),
     addRoutineSlotService = (\<lambda>calls routineId' slot.
        Inr \<lparr> sid = ''slot-9'', routineId = routineId', screatedAt = ''2025-01-11'',
              scols = ps_scols slot, s_isOffline = False, s_isOfflineUpdated = False,
              s_isOfflineDeleted = False \<rparr>),
     updateRoutineSlotService = (\<lambda>calls routineId' slotId updates. Inr ()),
     deleteRoutineSlotService = (\<lambda>calls routineId' slotId. Inr ()) \<rparr>"

text \<open>
  A routine made while offline, from a hook with nothing in it; the record the remote
  side above returns when it creates that routine; the same routine deleted while
  still offline.
\<close>

definition routines_empty :: "string routines_hook" where
  "routines_empty = \<lparr> routines = [], routinesLoading = False, routinesError = None,
     routinesDB = [], routineCalls = [] \<rparr>"

definition new_routine :: "string routine_patch" where
  "new_routine = no_routine_keys\<lparr>pr_rcols := [''name'' \<mapsto> ''Lab schedule'']\<rparr>"

definition routine_temp :: "string routine" where
  "routine_temp = \<lparr> rid = ''temp-1736500000000-k3x9q2a'',
     rcreatedAt = ''2025-01-10T09:06:40.000Z'', rcols = [''name'' \<mapsto> ''Lab schedule''],
     slots = [], r_isOffline = True, r_isOfflineUpdated = False,
     r_isOfflineDeleted = False \<rparr>"

definition routine_temp_srv9 :: "string routine" where
  "routine_temp_srv9 = \<lparr> rid = ''srv-9'', rcreatedAt = ''2025-01-11'',
     rcols = [''name'' \<mapsto> ''Lab schedule''], slots = [],
     r_isOffline = False, r_isOfflineUpdated = False, r_isOfflineDeleted = False \<rparr>"

definition created_offline :: "string routines_hook" where
  "created_offline = snd (createRoutine (renv_down True) new_routine routines_empty)"

definition created_then_deleted :: "string routines_hook" where
  "created_then_deleted =
     snd (deleteRoutine (renv_down True) ''temp-1736500000000-k3x9q2a'' created_offline)"

text \<open>
  Two stored routines with changes waiting: \<open>srv-3\<close> deleted offline, \<open>srv-7\<close>
  updated offline; and a remote side that accepts the delete and rejects the update.
\<close>

definition routine_srv3_deleted :: "string routine" where
  "routine_srv3_deleted = \<lparr> rid = ''srv-3'', rcreatedAt = ''2025-01-02'',
     rcols = [''name'' \<mapsto> ''Winter''], slots = [],
     r_isOffline = False, r_isOfflineUpdated = False, r_isOfflineDeleted = True \<rparr>"

definition routine_srv7_updated :: "string routine" where
  "routine_srv7_updated = routine_srv7\<lparr>r_isOfflineUpdated := True\<rparr>"

definition routines_two_tagged :: "string routines_hook" where
  "routines_two_tagged = \<lparr> routines = [routine_srv7], routinesLoading = False,
     routinesError = None, routinesDB = [routine_srv3_deleted, routine_srv7_updated],
     routineCalls = [] \<rparr>"

definition renv_partial :: "string routine_env" where
  "renv_partial =
     renv_up\<lparr>updateRoutineService := (\<lambda>calls id' updates. Inl (RemoteError ''rejected''))\<rparr>"

text \<open>
  Objects that change a name or a room, a routine with a synced slot and a slot made
  offline, and two runs of offline mutations.
\<close>

definition rename_routine :: "string routine_patch" where
  "rename_routine = no_routine_keys\<lparr>pr_rcols := [''name'' \<mapsto> ''Lab schedule 2'']\<rparr>"

definition move_slot :: "string slot_patch" where
  "move_slot = no_slot_keys\<lparr>ps_scols := [''roomNumber'' \<mapsto> ''B12'']\<rparr>"

definition slot_1 :: "string slot" where
  "slot_1 = \<lparr> sid = ''slot-1'', routineId = ''srv-5'', screatedAt = ''2025-01-04'',
     scols = [''roomNumber'' \<mapsto> ''A1''], s_isOffline = False, s_isOfflineUpdated = False,
     s_isOfflineDeleted = False \<rparr>"

definition slot_temp :: "string slot" where
  "slot_temp = \<lparr> sid = ''temp-slot-1736400000000-z1y2x3w'', routineId = ''srv-5'',
     screatedAt = ''2025-01-09'', scols = [''roomNumber'' \<mapsto> ''A2''], s_isOffline = True,
     s_isOfflineUpdated = False, s_isOfflineDeleted = False \<rparr>"

definition routine_srv5 :: "string routine" where
  "routine_srv5 = \<lparr> rid = ''srv-5'', rcreatedAt = ''2025-01-04'',
     rcols = [''name'' \<mapsto> ''Summer''], slots = [slot_1, slot_temp],
     r_isOffline = False, r_isOfflineUpdated = False, r_isOfflineDeleted = False \<rparr>"

definition routines_with_slots :: "string routines_hook" where
  "routines_with_slots = \<lparr> routines = [routine_srv5], routinesLoading = False,
     routinesError = None, routinesDB = [routine_srv5], routineCalls = [] \<rparr>"

definition created_then_updated :: "string routines_hook" where
  "created_then_updated =
     snd (updateRoutine (renv_down True) ''temp-1736500000000-k3x9q2a'' rename_routine
            created_offline)"

definition updated_then_deleted :: "string routines_hook" where
  "updated_then_deleted =
     snd (deleteRoutine (renv_down True) ''srv-7''
            (snd (updateRoutine (renv_down True) ''srv-7'' rename_routine routines_one_synced)))"








section \<open>Properties stated once\<close>

text \<open>
  A mutation's promise rejected with \<open>e\<close> and left the view and the database's
  collection as they were in \<open>s\<close>.
\<close>

definition task_rejected ::
  "(error + 'a) \<times> 'v tasks_hook \<Rightarrow> error \<Rightarrow> 'v tasks_hook \<Rightarrow> bool" where
  "task_rejected out e s =
     (fst out = Inl e \<and> tasks (snd out) = tasks s \<and> tasksDB (snd out) = tasksDB s)"

definition routine_rejected ::
  "(error + 'a) \<times> 'v routines_hook \<Rightarrow> error \<Rightarrow> 'v routines_hook \<Rightarrow> bool" where
  "routine_rejected out e s =
     (fst out = Inl e \<and> routines (snd out) = routines s
      \<and> routinesDB (snd out) = routinesDB s)"

text \<open>
  What a batch of puts does to a collection: \<open>after\<close> is again in key order, holds
  the keys of \<open>before\<close> and of \<open>items\<close>, consists of records of \<open>before\<close> and
  of \<open>items\<close>, keeps every record of \<open>before\<close> whose key no item has, and holds
  every item when no two items share a key.
\<close>

definition upsert_of :: "('r \<Rightarrow> string) \<Rightarrow> 'r list \<Rightarrow> 'r list \<Rightarrow> 'r list \<Rightarrow> bool" where
  "upsert_of key items before after =
     (well_keyed key after
      \<and> keys_of key after = keys_of key before \<union> keys_of key items
      \<and> set after \<subseteq> set before \<union> set items
      \<and> (\<forall>r \<in> set before. key r \<notin> keys_of key items \<longrightarrow> r \<in> set after)
      \<and> (distinct (map key items) \<longrightarrow> set items \<subseteq> set after))"

text \<open>The identifier and the three flags of a stored routine.\<close>

definition flags_of :: "'v routine \<Rightarrow> string \<times> bool \<times> bool \<times> bool" where
  "flags_of r = (rid r, r_isOffline r, r_isOfflineUpdated r, r_isOfflineDeleted r)"

text \<open>
  The routine a call to the remote service is about, and a log \<open>K'\<close> that
  extends \<open>K\<close> by calls about routines whose identifiers are in \<open>I\<close>.
\<close>

fun call_owner :: "'v routine_call \<Rightarrow> string option" where
  "call_owner FetchRoutines = None"
| "call_owner (CreateRoutine routine) = pr_rid routine"
| "call_owner (UpdateRoutine id' updates) = Some id'"
| "call_owner (DeleteRoutine id') = Some id'"
| "call_owner (AddRoutineSlot routineId' slot) = Some routineId'"
| "call_owner (UpdateRoutineSlot routineId' slotId updates) = Some routineId'"
| "call_owner (DeleteRoutineSlot routineId' slotId) = Some routineId'"

definition owned_by :: "string set \<Rightarrow> 'v routine_call list \<Rightarrow> 'v routine_call list \<Rightarrow> bool" where
  "owned_by I K K' = (\<exists>extra. K' = K @ extra \<and> (\<forall>c \<in> set extra. \<exists>i \<in> I. call_owner c = Some i))"

section \<open>The storage layer\<close>

lemma getAll_Healthy [simp]: "getAllFromIndexedDB Healthy st = Inr st"
  by (simp add: getAllFromIndexedDB_def)

lemma getById_Healthy [simp]:
  "getByIdFromIndexedDB Healthy key k st = Inr (find (\<lambda>r. key r = k) st)"
  by (simp add: getByIdFromIndexedDB_def)

lemma save_Healthy [simp]: "saveToIndexedDB Healthy key data st = Inr (put_all key data st)"
  by (simp add: saveToIndexedDB_def)

lemma delete_Healthy [simp]:
  "deleteFromIndexedDB Healthy key k st = Inr (filter (\<lambda>r. key r \<noteq> k) st)"
  by (simp add: deleteFromIndexedDB_def)

lemma getAll_cases: "getAllFromIndexedDB d st = Inr xs \<Longrightarrow> xs = st \<or> xs = []"
  by (cases d) (auto simp: getAllFromIndexedDB_def)

lemma set_put_subset: "set (put key x st) \<subseteq> insert x (set st)"
  by (induction st) auto

lemma put_mem: "x \<in> set (put key x st)"
  by (induction st) auto

lemma put_keeps_others: "r \<in> set st \<Longrightarrow> key r \<noteq> key x \<Longrightarrow> r \<in> set (put key x st)"
  by (induction st) auto

lemma keys_put: "keys_of key (put key x st) = insert (key x) (keys_of key st)"
  by (induction st) (auto simp: keys_of_def)

lemma well_keyed_put: "well_keyed key st \<Longrightarrow> well_keyed key (put key x st)"
proof (induction st)
  case Nil
  then show ?case by (simp add: well_keyed_def)
next
  case (Cons y ys)
  have k: "key ` set (put key x ys) \<subseteq> insert (key x) (key ` set ys)"
    using set_put_subset [of key x ys] by auto
  from Cons show ?case
    using k by (auto simp: well_keyed_def)
qed

lemma set_put_well_keyed:
  "well_keyed key st \<Longrightarrow> set (put key x st) = insert x {r \<in> set st. key r \<noteq> key x}"
  by (induction st) (auto simp: well_keyed_def)

lemma well_keyed_batch:
  "well_keyed key st \<Longrightarrow> well_keyed key (foldl (\<lambda>acc item. put key item acc) st items)"
  by (induction items arbitrary: st) (simp_all add: well_keyed_put)

lemma well_keyed_put_all: "well_keyed key st \<Longrightarrow> well_keyed key (put_all key d st)"
  by (cases d) (simp_all add: well_keyed_put well_keyed_batch)

lemma keys_put_batch:
  "keys_of key (foldl (\<lambda>acc item. put key item acc) st items)
     = keys_of key st \<union> keys_of key items"
proof (induction items arbitrary: st)
  case Nil
  then show ?case by (simp add: keys_of_def)
next
  case (Cons x xs)
  have "keys_of key (x # xs) = insert (key x) (keys_of key xs)"
    by (simp add: keys_of_def)
  then show ?case using Cons [of "put key x st"] by (simp add: keys_put)
qed

lemma batch_keeps_others:
  "r \<in> set st \<Longrightarrow> key r \<notin> key ` set items
     \<Longrightarrow> r \<in> set (foldl (\<lambda>acc item. put key item acc) st items)"
  by (induction items arbitrary: st) (auto simp: put_keeps_others)

lemma batch_subset:
  "set (foldl (\<lambda>acc item. put key item acc) st items) \<subseteq> set st \<union> set items"
proof (induction items arbitrary: st)
  case Nil
  then show ?case by simp
next
  case (Cons x xs)
  show ?case using Cons [of "put key x st"] set_put_subset [of key x st] by auto
qed

lemma batch_holds_items:
  "distinct (map key items) \<Longrightarrow> x \<in> set items
     \<Longrightarrow> x \<in> set (foldl (\<lambda>acc item. put key item acc) st items)"
proof (induction items arbitrary: st)
  case Nil
  then show ?case by simp
next
  case (Cons y ys)
  show ?case
  proof (cases "x = y")
    case True
    have "y \<in> set (put key y st)" by (rule put_mem)
    moreover have "key y \<notin> key ` set ys" using Cons.prems by auto
    ultimately show ?thesis using True batch_keeps_others [of y "put key y st" key ys] by simp
  next
    case False
    then show ?thesis using Cons by auto
  qed
qed

lemma upsert_of_batch:
  assumes "well_keyed key st"
  shows "upsert_of key items st (put_all key (Batch items) st)"
  unfolding upsert_of_def
proof (intro conjI ballI impI subsetI)
  show "well_keyed key (put_all key (Batch items) st)"
    using assms by (rule well_keyed_put_all)
  show "keys_of key (put_all key (Batch items) st) = keys_of key st \<union> keys_of key items"
    by (simp add: keys_put_batch)
  show "x \<in> set st \<union> set items" if "x \<in> set (put_all key (Batch items) st)" for x
    using that batch_subset [of key st items] by auto
  show "r \<in> set (put_all key (Batch items) st)"
    if "r \<in> set st" and "key r \<notin> keys_of key items" for r
    using that by (simp add: batch_keeps_others keys_of_def)
  show "x \<in> set (put_all key (Batch items) st)"
    if "distinct (map key items)" and "x \<in> set items" for x
    using that by (simp add: batch_holds_items)
qed

lemma find_put:
  "find (\<lambda>r. key r = k) (put key x st)
     = (if key x = k then Some x else find (\<lambda>r. key r = k) st)"
  by (induction st) auto

lemma well_keyed_Cons:
  "well_keyed key (y # ys) \<longleftrightarrow> (\<forall>x \<in> set ys. key y < key x) \<and> well_keyed key ys"
  by (auto simp: well_keyed_def)

lemma well_keyed_find:
  "well_keyed key st \<Longrightarrow> r \<in> set st \<Longrightarrow> find (\<lambda>x. key x = key r) st = Some r"
  by (induction st) (auto simp: well_keyed_Cons)

lemma find_Some_mem: "find p xs = Some x \<Longrightarrow> x \<in> set xs \<and> p x"
  by (induction xs) (auto split: if_splits)

lemma findIndex_Some:
  "findIndex p xs = Some i \<Longrightarrow> i < length xs \<and> p (xs ! i) \<and> find p xs = Some (xs ! i)"
proof (induction xs arbitrary: i)
  case Nil
  then show ?case by simp
next
  case (Cons x xs)
  show ?case
  proof (cases "p x")
    case True
    then show ?thesis using Cons.prems by simp
  next
    case False
    then obtain j where j: "findIndex p xs = Some j" "i = Suc j"
      using Cons.prems by auto
    then show ?thesis using Cons.IH [of j] False by simp
  qed
qed

lemma findIndex_None: "findIndex p xs = None \<longleftrightarrow> find p xs = None"
  by (induction xs) auto

lemma find_findIndex:
  "find p xs = Some x \<Longrightarrow> \<exists>i. findIndex p xs = Some i \<and> xs ! i = x \<and> i < length xs"
proof -
  assume a: "find p xs = Some x"
  then have "findIndex p xs \<noteq> None" by (simp add: findIndex_None)
  then obtain i where i: "findIndex p xs = Some i" by auto
  then show ?thesis using findIndex_Some [OF i] a by auto
qed

lemma batch_above:
  "\<forall>x \<in> set items. key z < key x
     \<Longrightarrow> foldl (\<lambda>acc item. put key item acc) (z # ys) items
           = z # foldl (\<lambda>acc item. put key item acc) ys items"
  by (induction items arbitrary: ys) auto

lemma batch_same_keys:
  "well_keyed key zs \<Longrightarrow> map key zs = map key st
     \<Longrightarrow> foldl (\<lambda>acc item. put key item acc) st zs = zs"
proof (induction zs arbitrary: st)
  case Nil
  then show ?case by simp
next
  case (Cons z zs)
  then obtain y ys where st: "st = y # ys" "key z = key y" "map key zs = map key ys"
    by (cases st) auto
  have above: "\<forall>x \<in> set zs. key z < key x"
    using Cons.prems(1) by (simp add: well_keyed_Cons)
  have "foldl (\<lambda>acc item. put key item acc) st (z # zs)
          = foldl (\<lambda>acc item. put key item acc) (z # ys) zs"
    using st by simp
  also have "\<dots> = z # foldl (\<lambda>acc item. put key item acc) ys zs"
    using above by (rule batch_above)
  also have "\<dots> = z # zs"
    using Cons.IH [of ys] Cons.prems(1) st by (simp add: well_keyed_Cons)
  finally show ?case .
qed

lemma batch_replace_at:
  assumes "well_keyed key st" and "i < length st" and "key u = key (st ! i)"
  shows "put_all key (Batch (st[i := u])) st = st[i := u]"
proof -
  have m: "map key (st[i := u]) = map key st"
    using assms by (simp add: map_update list_update_same_conv)
  then have "well_keyed key (st[i := u])"
    using assms(1) by (simp add: well_keyed_def)
  then show ?thesis using m by (simp add: batch_same_keys)
qed


text \<open>
  Claim C7. The claim: a read of the local store (all records, or one by its key) turns
  every storage failure, at opening or inside the transaction, into an empty result
  (respectively not-found) instead of a rejection. The code does so for a failure to open
  the database only. Evaluated here: when the database opens and the request fails, both
  reads reject with the storage error; when opening fails they resolve with \<open>[]\<close> and
  with \<open>None\<close>.
\<close>

theorem read_rejects_when_request_fails:
  "getAllFromIndexedDB (RequestFails m) st = Inl (StorageError m)
   \<and> getByIdFromIndexedDB (RequestFails m) key k st = Inl (StorageError m)
   \<and> getAllFromIndexedDB (OpenFails m) st = Inr []
   \<and> getByIdFromIndexedDB (OpenFails m) key k st = Inr None"
  by (simp add: getAllFromIndexedDB_def getByIdFromIndexedDB_def)

section \<open>Loading tasks\<close>

text \<open>
  Claim C10. Whenever \<open>loadTasks\<close> serves tasks from the local store, every task it
  puts into the view carries the current user's \<open>userId\<close>. With \<open>view\<close> the view
  after the load and \<open>mine\<close> the stored tasks of the current user: offline, the view
  is \<open>mine\<close>; online with a failed connection test or fetch, the view is \<open>mine\<close>
  unless \<open>mine\<close> is empty, and is left alone then; and in every case the view is the
  one before the call, or the list the remote fetch returned, or made of stored tasks
  of the current user only.
\<close>

theorem loadTasks_local_tasks_of_current_user:
  fixes env :: "'v task_env" and s :: "'v tasks_hook" and uid :: string
  assumes "uid \<noteq> []"
  defines "view \<equiv> tasks (loadTasks env (Some uid) s)"
  defines "mine \<equiv> filter (\<lambda>t. userId t = Some uid) (tasksDB s)"
  shows "(isOffline env \<and> db env = Healthy \<longrightarrow> view = mine)
       \<and> (\<not> isOffline env \<and> db env = Healthy
            \<and> ((\<exists>e. testConnection env (taskCalls s) = Inl e)
               \<or> testConnection env (taskCalls s) = Inr False
               \<or> (\<exists>e. fetchTasks env (taskCalls s @ [TestConnection]) uid = Inl e))
            \<longrightarrow> view = (if mine = [] then tasks s else mine))
       \<and> (view = tasks s
            \<or> (\<not> isOffline env
                \<and> fetchTasks env (taskCalls s @ [TestConnection]) uid = Inr view)
            \<or> (set view \<subseteq> set (tasksDB s) \<and> (\<forall>t \<in> set view. userId t = Some uid)))"
proof (intro conjI impI)
  assume "isOffline env \<and> db env = Healthy"
  then show "view = mine"
    using assms(1) by (simp add: view_def mine_def loadTasks_def loadTasks_try_def)
next
  assume "\<not> isOffline env \<and> db env = Healthy
            \<and> ((\<exists>e. testConnection env (taskCalls s) = Inl e)
               \<or> testConnection env (taskCalls s) = Inr False
               \<or> (\<exists>e. fetchTasks env (taskCalls s @ [TestConnection]) uid = Inl e))"
  then show "view = (if mine = [] then tasks s else mine)"
    using assms(1)
    by (auto simp: view_def mine_def loadTasks_def loadTasks_try_def loadTasks_catch_def Let_def
        split: sum.splits bool.splits)
next
  show "view = tasks s
            \<or> (\<not> isOffline env
                \<and> fetchTasks env (taskCalls s @ [TestConnection]) uid = Inr view)
            \<or> (set view \<subseteq> set (tasksDB s) \<and> (\<forall>t \<in> set view. userId t = Some uid))"
    using assms(1)
    by (auto simp: view_def loadTasks_def loadTasks_try_def loadTasks_catch_def Let_def
        split: sum.splits bool.splits dest!: getAll_cases)
qed

theorem loadTasks_local_tasks_of_current_user_witness:
  "''u1'' \<noteq> []
   \<and> isOffline (tenv_down True) \<and> db (tenv_down True) = Healthy
   \<and> tasks (loadTasks (tenv_down True) (Some ''u1'') tasks_two_users) = [task_u1]
   \<and> \<not> isOffline (tenv_down False) \<and> db (tenv_down False) = Healthy
   \<and> testConnection (tenv_down False) (taskCalls tasks_two_users) = Inr False
   \<and> tasks (loadTasks (tenv_down False) (Some ''u1'') tasks_two_users) = [task_u1]
   \<and> userId task_u1 = Some ''u1'' \<and> userId task_u2 = Some ''u2''"
  using loadTasks_local_tasks_of_current_user [of "''u1''" "tenv_down True" tasks_two_users]
    loadTasks_local_tasks_of_current_user [of "''u1''" "tenv_down False" tasks_two_users]
  by (simp add: tenv_down_def tasks_two_users_def task_u1_def task_u2_def)

section \<open>Mutations while online\<close>

text \<open>
  Claim C6. When a create, update or delete issued while online has its remote call
  rejected with \<open>e\<close>, the operation's promise rejects with \<open>e\<close>, and the view and
  the local store are what they were before the call. This holds for the three
  mutations of tasks, the three of routines and the three of routine slots.
\<close>

theorem online_rejection_leaves_view_and_store:
  fixes tenv :: "'v task_env" and renv :: "'v routine_env"
  assumes "\<not> isOffline tenv" and "\<not> isOffline renv"
  shows
   "(uid \<noteq> [] \<and> createTask tenv (taskCalls ts) uid newTask = Inl e
       \<longrightarrow> task_rejected (handleCreateTask tenv (Some uid) newTask ts) e ts)
  \<and> (updateTask tenv (taskCalls ts) taskId tupdates = Inl e
       \<longrightarrow> task_rejected (handleUpdateTask tenv userId' taskId tupdates ts) e ts)
  \<and> (deleteTask tenv (taskCalls ts) taskId = Inl e
       \<longrightarrow> task_rejected (handleDeleteTask tenv taskId ts) e ts)
  \<and> (createRoutineService renv (routineCalls rs) routine = Inl e
       \<longrightarrow> routine_rejected (createRoutine renv routine rs) e rs)
  \<and> (updateRoutineService renv (routineCalls rs) rid' rupdates = Inl e
       \<longrightarrow> routine_rejected (updateRoutine renv rid' rupdates rs) e rs)
  \<and> (deleteRoutineService renv (routineCalls rs) rid' = Inl e
       \<longrightarrow> routine_rejected (deleteRoutine renv rid' rs) e rs)
  \<and> (addRoutineSlotService renv (routineCalls rs) rid' slot = Inl e
       \<longrightarrow> routine_rejected (addRoutineSlot renv rid' slot rs) e rs)
  \<and> (updateRoutineSlotService renv (routineCalls rs) rid' slotId supdates = Inl e
       \<longrightarrow> routine_rejected (updateRoutineSlot renv rid' slotId supdates rs) e rs)
  \<and> (deleteRoutineSlotService renv (routineCalls rs) rid' slotId = Inl e
       \<longrightarrow> routine_rejected (deleteRoutineSlot renv rid' slotId rs) e rs)"
  using assms
  by (simp add: task_rejected_def routine_rejected_def task_fail_def routine_fail_def
      handleCreateTask_def handleUpdateTask_def handleDeleteTask_def
      createRoutine_def updateRoutine_def deleteRoutine_def
      addRoutineSlot_def updateRoutineSlot_def deleteRoutineSlot_def Let_def)

theorem online_rejection_leaves_view_and_store_witness:
  "\<not> isOffline (tenv_down False) \<and> \<not> isOffline (renv_down False) \<and> ''u1'' \<noteq> []
   \<and> createTask (tenv_down False) (taskCalls tasks_two_users) ''u1'' no_task_keys
       = Inl (RemoteError ''down'')
   \<and> task_rejected (handleCreateTask (tenv_down False) (Some ''u1'') no_task_keys
         tasks_two_users) (RemoteError ''down'') tasks_two_users
   \<and> task_rejected (handleUpdateTask (tenv_down False) (Some ''u1'') ''a1'' no_task_keys
         tasks_two_users) (RemoteError ''down'') tasks_two_users
   \<and> task_rejected (handleDeleteTask (tenv_down False) ''a1'' tasks_two_users)
         (RemoteError ''down'') tasks_two_users
   \<and> createRoutineService (renv_down False) (routineCalls routines_one_synced) no_routine_keys
       = Inl (RemoteError ''down'')
   \<and> routine_rejected (createRoutine (renv_down False) no_routine_keys routines_one_synced)
         (RemoteError ''down'') routines_one_synced
   \<and> routine_rejected (updateRoutine (renv_down False) ''srv-7'' no_routine_keys
         routines_one_synced) (RemoteError ''down'') routines_one_synced
   \<and> routine_rejected (deleteRoutine (renv_down False) ''srv-7'' routines_one_synced)
         (RemoteError ''down'') routines_one_synced
   \<and> routine_rejected (addRoutineSlot (renv_down False) ''srv-7'' no_slot_keys
         routines_one_synced) (RemoteError ''down'') routines_one_synced
   \<and> routine_rejected (updateRoutineSlot (renv_down False) ''srv-7'' ''slot-1'' no_slot_keys
         routines_one_synced) (RemoteError ''down'') routines_one_synced
   \<and> routine_rejected (deleteRoutineSlot (renv_down False) ''srv-7'' ''slot-1''
         routines_one_synced) (RemoteError ''down'') routines_one_synced"
  using online_rejection_leaves_view_and_store [of "tenv_down False" "renv_down False"
      "''u1''" tasks_two_users no_task_keys "RemoteError ''down''" "''a1''" no_task_keys
      "Some ''u1''" routines_one_synced no_routine_keys "''srv-7''" no_routine_keys
      no_slot_keys "''slot-1''" no_slot_keys]
  by (simp add: tenv_down_def renv_down_def)

section \<open>Loading while online\<close>

text \<open>
  Claim C2, as the spec has it: after an online load whose fetch succeeds, the local
  store holds exactly the fetched records. It does not: the records stored before stay.
  Here the store held the tasks \<open>a1\<close> and \<open>a2\<close> and the fetch returns the task
  \<open>b7\<close> alone; afterwards the store holds all three. Likewise the routine \<open>srv-7\<close>
  stays when the fetch returns the routine \<open>srv-9\<close> alone.
\<close>

theorem load_online_keeps_stale_records:
  "fetchTasks tenv_up (taskCalls tasks_two_users @ [TestConnection]) ''u1'' = Inr [task_b7]
   \<and> tasks (loadTasks tenv_up (Some ''u1'') tasks_two_users) = [task_b7]
   \<and> tasksDB (loadTasks tenv_up (Some ''u1'') tasks_two_users)
       = [task_u1, task_u2, task_b7\<lparr>userId := Some ''u1''\<rparr>]
   \<and> fetchRoutines renv_up (routineCalls routines_one_synced) = Inr [routine_srv9]
   \<and> routines (loadRoutines renv_up routines_one_synced) = [routine_srv9]
   \<and> routinesDB (loadRoutines renv_up routines_one_synced) = [routine_srv7, routine_srv9]"
  by (simp add: tenv_up_def renv_up_def tasks_two_users_def routines_one_synced_def
      loadTasks_def loadTasks_try_def loadRoutines_def loadRoutines_try_def
      task_u1_def task_u2_def task_b7_def routine_srv7_def routine_srv9_def)

text \<open>
  Claim C2, amended: after an online load whose fetch succeeds (and whose write to the
  database succeeds), the view is the fetched list, and the local store is the old
  one with the fetched records put over it: every fetched record is stored under its
  key (a task with the current user's \<open>userId\<close> added), the records stored before
  under other keys are still there, and nothing else is.
\<close>

theorem load_online_upserts_fetched_records:
  fixes tenv :: "'v task_env" and renv :: "'v routine_env"
  shows
    "(uid \<noteq> [] \<and> \<not> isOffline tenv \<and> db tenv = Healthy
        \<and> testConnection tenv (taskCalls ts) = Inr True
        \<and> fetchTasks tenv (taskCalls ts @ [TestConnection]) uid = Inr tdata
        \<and> well_keyed tid (tasksDB ts)
      \<longrightarrow> tasks (loadTasks tenv (Some uid) ts) = tdata
          \<and> upsert_of tid (map (\<lambda>t. t\<lparr>userId := Some uid\<rparr>) tdata) (tasksDB ts)
               (tasksDB (loadTasks tenv (Some uid) ts)))
   \<and> (\<not> isOffline renv \<and> db renv = Healthy
        \<and> fetchRoutines renv (routineCalls rs) = Inr rdata
        \<and> well_keyed rid (routinesDB rs)
      \<longrightarrow> routines (loadRoutines renv rs) = rdata
          \<and> upsert_of rid rdata (routinesDB rs) (routinesDB (loadRoutines renv rs)))"
proof (intro conjI impI)
  assume a: "uid \<noteq> [] \<and> \<not> isOffline tenv \<and> db tenv = Healthy
        \<and> testConnection tenv (taskCalls ts) = Inr True
        \<and> fetchTasks tenv (taskCalls ts @ [TestConnection]) uid = Inr tdata
        \<and> well_keyed tid (tasksDB ts)"
  then show "tasks (loadTasks tenv (Some uid) ts) = tdata"
    by (simp add: loadTasks_def loadTasks_try_def)
  have "tasksDB (loadTasks tenv (Some uid) ts)
          = put_all tid (Batch (map (\<lambda>t. t\<lparr>userId := Some uid\<rparr>) tdata)) (tasksDB ts)"
    using a by (simp add: loadTasks_def loadTasks_try_def)
  then show "upsert_of tid (map (\<lambda>t. t\<lparr>userId := Some uid\<rparr>) tdata) (tasksDB ts)
               (tasksDB (loadTasks tenv (Some uid) ts))"
    using a upsert_of_batch [of tid "tasksDB ts"] by simp
next
  assume a: "\<not> isOffline renv \<and> db renv = Healthy
        \<and> fetchRoutines renv (routineCalls rs) = Inr rdata
        \<and> well_keyed rid (routinesDB rs)"
  then show "routines (loadRoutines renv rs) = rdata"
    by (cases rdata) (simp_all add: loadRoutines_def loadRoutines_try_def)
  have "routinesDB (loadRoutines renv rs) = put_all rid (Batch rdata) (routinesDB rs)"
    using a by (cases rdata) (simp_all add: loadRoutines_def loadRoutines_try_def)
  then show "upsert_of rid rdata (routinesDB rs) (routinesDB (loadRoutines renv rs))"
    using a upsert_of_batch [of rid "routinesDB rs"] by simp
qed

theorem load_online_upserts_fetched_records_witness:
  "''u1'' \<noteq> [] \<and> \<not> isOffline tenv_up \<and> db tenv_up = Healthy
   \<and> testConnection tenv_up (taskCalls tasks_two_users) = Inr True
   \<and> fetchTasks tenv_up (taskCalls tasks_two_users @ [TestConnection]) ''u1'' = Inr [task_b7]
   \<and> well_keyed tid (tasksDB tasks_two_users)
   \<and> tasks (loadTasks tenv_up (Some ''u1'') tasks_two_users) = [task_b7]
   \<and> upsert_of tid (map (\<lambda>t. t\<lparr>userId := Some ''u1''\<rparr>) [task_b7]) (tasksDB tasks_two_users)
        (tasksDB (loadTasks tenv_up (Some ''u1'') tasks_two_users))
   \<and> \<not> isOffline renv_up \<and> db renv_up = Healthy
   \<and> fetchRoutines renv_up (routineCalls routines_one_synced) = Inr [routine_srv9]
   \<and> well_keyed rid (routinesDB routines_one_synced)
   \<and> routines (loadRoutines renv_up routines_one_synced) = [routine_srv9]
   \<and> upsert_of rid [routine_srv9] (routinesDB routines_one_synced)
        (routinesDB (loadRoutines renv_up routines_one_synced))"
proof -
  have t: "''u1'' \<noteq> [] \<and> \<not> isOffline tenv_up \<and> db tenv_up = Healthy
      \<and> testConnection tenv_up (taskCalls tasks_two_users) = Inr True
      \<and> fetchTasks tenv_up (taskCalls tasks_two_users @ [TestConnection]) ''u1''
          = Inr [task_b7]
      \<and> well_keyed tid (tasksDB tasks_two_users)"
    by (simp add: tenv_up_def tasks_two_users_def well_keyed_def task_u1_def task_u2_def)
  have r: "\<not> isOffline renv_up \<and> db renv_up = Healthy
      \<and> fetchRoutines renv_up (routineCalls routines_one_synced) = Inr [routine_srv9]
      \<and> well_keyed rid (routinesDB routines_one_synced)"
    by (simp add: renv_up_def routines_one_synced_def well_keyed_def)
  show ?thesis
    using t r load_online_upserts_fetched_records [of "''u1''" tenv_up tasks_two_users
        "[task_b7]" renv_up routines_one_synced "[routine_srv9]"]
    by simp
qed

section \<open>Mutations while offline\<close>

lemma created_offline_eq:
  "createRoutine (renv_down True) new_routine routines_empty
     = (Inr routine_temp,
        routines_empty\<lparr>routinesDB := [routine_temp], routines := [routine_temp]\<rparr>)"
  by (simp add: createRoutine_def offline_routine_def renv_down_def new_routine_def
      no_routine_keys_def routines_empty_def routine_temp_def spread_routine_def
      merge_routine_def Let_def)

lemma created_then_deleted_eq:
  "created_then_deleted
     = routines_empty\<lparr>routinesDB := [routine_temp\<lparr>r_isOfflineDeleted := True\<rparr>]\<rparr>"
  unfolding created_then_deleted_def created_offline_def created_offline_eq
  by (simp add: deleteRoutine_def renv_down_def routines_empty_def routine_temp_def Let_def)

text \<open>
  Claim C5, as the spec has it: a record carries at most one sync tag, and a new local
  mutation overwrites the tag before it. The hook keeps three flags per record and
  never clears one: a routine created offline and then updated carries
  \<open>_isOffline\<close> and \<open>_isOfflineUpdated\<close>; a synced routine updated and then
  deleted carries \<open>_isOfflineUpdated\<close> and \<open>_isOfflineDeleted\<close>. Each line
  below lists identifier, \<open>_isOffline\<close>, \<open>_isOfflineUpdated\<close>,
  \<open>_isOfflineDeleted\<close> of the stored routine.
\<close>

theorem offline_flags_stack:
  "map flags_of (routinesDB created_offline)
     = [(''temp-1736500000000-k3x9q2a'', True, False, False)]
   \<and> map flags_of (routinesDB created_then_updated)
     = [(''temp-1736500000000-k3x9q2a'', True, True, False)]
   \<and> map flags_of (routinesDB routines_one_synced) = [(''srv-7'', False, False, False)]
   \<and> map flags_of (routinesDB updated_then_deleted) = [(''srv-7'', False, True, True)]"
  unfolding created_then_updated_def updated_then_deleted_def created_offline_def
    created_offline_eq
  by (simp add: updateRoutine_def deleteRoutine_def renv_down_def routines_empty_def
      routine_temp_def routines_one_synced_def routine_srv7_def rename_routine_def
      no_routine_keys_def merge_routine_def flags_of_def Let_def)

text \<open>
  Claim C5, amended: the sync state of a routine or slot is three flags that add up.
  For a stored routine \<open>r\<close> and the hook offline: an update (whose object names no
  identifier and no flag) sets \<open>_isOfflineUpdated\<close> and leaves \<open>_isOffline\<close> and
  \<open>_isOfflineDeleted\<close> as they were, so a routine created offline stays marked as
  created; a delete of a routine not created offline sets \<open>_isOfflineDeleted\<close> and
  leaves the rest of the record; an update of a slot sets \<open>_isOfflineUpdated\<close> on
  the slots with that identifier and leaves every slot's other two flags; a delete of
  a slot removes the slots with that identifier that were created offline, sets
  \<open>_isOfflineDeleted\<close> on the others with that identifier, and leaves the other two
  flags of every slot that stays.
\<close>

theorem offline_mutations_add_their_flag:
  fixes env :: "'v routine_env"
  assumes "isOffline env" and "db env = Healthy" and "well_keyed rid (routinesDB s)"
    and "r \<in> set (routinesDB s)"
  shows
   "(pr_rid updates = None \<and> pr_isOffline updates = None
       \<and> pr_isOfflineUpdated updates = None \<and> pr_isOfflineDeleted updates = None
     \<longrightarrow> (\<exists>r'. find (\<lambda>x. rid x = rid r) (routinesDB (snd (updateRoutine env (rid r) updates s)))
                  = Some r'
              \<and> r_isOfflineUpdated r'
              \<and> r_isOffline r' = r_isOffline r
              \<and> r_isOfflineDeleted r' = r_isOfflineDeleted r))
  \<and> (\<not> r_isOffline r
     \<longrightarrow> find (\<lambda>x. rid x = rid r) (routinesDB (snd (deleteRoutine env (rid r) s)))
           = Some (r\<lparr>r_isOfflineDeleted := True\<rparr>))
  \<and> (ps_sid supdates = None \<and> ps_isOffline supdates = None
       \<and> ps_isOfflineUpdated supdates = None \<and> ps_isOfflineDeleted supdates = None
     \<longrightarrow> (\<exists>r'. find (\<lambda>x. rid x = rid r)
                    (routinesDB (snd (updateRoutineSlot env (rid r) slotId supdates s)))
                  = Some r'
              \<and> map sid (slots r') = map sid (slots r)
              \<and> map s_isOffline (slots r') = map s_isOffline (slots r)
              \<and> map s_isOfflineDeleted (slots r') = map s_isOfflineDeleted (slots r)
              \<and> map s_isOfflineUpdated (slots r')
                  = map (\<lambda>sl. sid sl = slotId \<or> s_isOfflineUpdated sl) (slots r)))
  \<and> (\<exists>r'. find (\<lambda>x. rid x = rid r)
                (routinesDB (snd (deleteRoutineSlot env (rid r) slotId s))) = Some r'
           \<and> map (\<lambda>sl. (sid sl, s_isOffline sl, s_isOfflineUpdated sl)) (slots r')
               = map (\<lambda>sl. (sid sl, s_isOffline sl, s_isOfflineUpdated sl))
                   (filter (\<lambda>sl. \<not> (sid sl = slotId \<and> s_isOffline sl)) (slots r))
           \<and> map s_isOfflineDeleted (slots r')
               = map (\<lambda>sl. sid sl = slotId \<or> s_isOfflineDeleted sl)
                   (filter (\<lambda>sl. \<not> (sid sl = slotId \<and> s_isOffline sl)) (slots r)))"
proof -
  have f: "find (\<lambda>x. rid x = rid r) (routinesDB s) = Some r"
    using assms(3,4) by (rule well_keyed_find)
  obtain i where i: "findIndex (\<lambda>x. rid x = rid r) (routinesDB s) = Some i"
      "routinesDB s ! i = r" "i < length (routinesDB s)"
    using find_findIndex [OF f] by auto
  have at: "\<And>u. rid u = rid r \<Longrightarrow>
      put_all rid (Batch ((routinesDB s)[i := u])) (routinesDB s) = (routinesDB s)[i := u]"
    using batch_replace_at [OF assms(3) i(3)] i(2) by simp
  have wk: "well_keyed rid ((routinesDB s)[i := u])" if "rid u = rid r" for u
  proof -
    have "map rid ((routinesDB s)[i := u])
            = (map rid (routinesDB s))[i := map rid (routinesDB s) ! i]"
      using that i by (simp add: map_update)
    then have "map rid ((routinesDB s)[i := u]) = map rid (routinesDB s)"
      by simp
    then show ?thesis using assms(3) by (simp add: well_keyed_def)
  qed
  have found: "\<And>u. rid u = rid r \<Longrightarrow>
      find (\<lambda>x. rid x = rid r) ((routinesDB s)[i := u]) = Some u"
  proof -
    fix u :: "'v routine" assume u: "rid u = rid r"
    have "u \<in> set ((routinesDB s)[i := u])" using i(3) by (simp add: set_update_memI)
    then show "find (\<lambda>x. rid x = rid r) ((routinesDB s)[i := u]) = Some u"
      using well_keyed_find [OF wk [OF u], of u] u by simp
  qed
  show ?thesis
  proof (intro conjI impI)
    assume p: "pr_rid updates = None \<and> pr_isOffline updates = None
       \<and> pr_isOfflineUpdated updates = None \<and> pr_isOfflineDeleted updates = None"
    then have k: "rid ((merge_routine r updates)\<lparr>r_isOfflineUpdated := True\<rparr>) = rid r"
      by (simp add: merge_routine_def)
    have "routinesDB (snd (updateRoutine env (rid r) updates s))
            = put rid ((merge_routine r updates)\<lparr>r_isOfflineUpdated := True\<rparr>) (routinesDB s)"
      using assms(1,2) f by (simp add: updateRoutine_def Let_def)
    then have "find (\<lambda>x. rid x = rid r) (routinesDB (snd (updateRoutine env (rid r) updates s)))
            = Some ((merge_routine r updates)\<lparr>r_isOfflineUpdated := True\<rparr>)"
      using k by (simp add: find_put)
    then show "\<exists>r'. find (\<lambda>x. rid x = rid r)
                    (routinesDB (snd (updateRoutine env (rid r) updates s))) = Some r'
              \<and> r_isOfflineUpdated r'
              \<and> r_isOffline r' = r_isOffline r
              \<and> r_isOfflineDeleted r' = r_isOfflineDeleted r"
      using p by (simp add: merge_routine_def)
  next
    have "routinesDB (snd (deleteRoutine env (rid r) s))
            = put rid (r\<lparr>r_isOfflineDeleted := True\<rparr>) (routinesDB s)"
      using assms(1,2) f by (simp add: deleteRoutine_def Let_def)
    then show "find (\<lambda>x. rid x = rid r) (routinesDB (snd (deleteRoutine env (rid r) s)))
           = Some (r\<lparr>r_isOfflineDeleted := True\<rparr>)"
      by (simp add: find_put)
  next
    assume p: "ps_sid supdates = None \<and> ps_isOffline supdates = None
       \<and> ps_isOfflineUpdated supdates = None \<and> ps_isOfflineDeleted supdates = None"
    define u where "u = r\<lparr>slots := map (\<lambda>slot. if sid slot = slotId
                                               then (merge_slot slot supdates)
                                                      \<lparr>s_isOfflineUpdated := True\<rparr>
                                               else slot) (slots r)\<rparr>"
    have ur: "rid u = rid r" by (simp add: u_def)
    have "routinesDB (snd (updateRoutineSlot env (rid r) slotId supdates s))
            = (routinesDB s)[i := u]"
      using assms(1,2) i at [OF ur] by (simp add: updateRoutineSlot_def Let_def u_def)
    then have "find (\<lambda>x. rid x = rid r)
                 (routinesDB (snd (updateRoutineSlot env (rid r) slotId supdates s))) = Some u"
      using found [OF ur] by simp
    moreover have "map sid (slots u) = map sid (slots r)
              \<and> map s_isOffline (slots u) = map s_isOffline (slots r)
              \<and> map s_isOfflineDeleted (slots u) = map s_isOfflineDeleted (slots r)
              \<and> map s_isOfflineUpdated (slots u)
                  = map (\<lambda>sl. sid sl = slotId \<or> s_isOfflineUpdated sl) (slots r)"
      using p by (auto simp: u_def merge_slot_def)
    ultimately show "\<exists>r'. find (\<lambda>x. rid x = rid r)
                    (routinesDB (snd (updateRoutineSlot env (rid r) slotId supdates s)))
                  = Some r'
              \<and> map sid (slots r') = map sid (slots r)
              \<and> map s_isOffline (slots r') = map s_isOffline (slots r)
              \<and> map s_isOfflineDeleted (slots r') = map s_isOfflineDeleted (slots r)
              \<and> map s_isOfflineUpdated (slots r')
                  = map (\<lambda>sl. sid sl = slotId \<or> s_isOfflineUpdated sl) (slots r)"
      by blast
  next
    define u where "u = r\<lparr>slots := filter (\<lambda>slot. \<not> (sid slot = slotId \<and> s_isOffline slot))
                                 (map (\<lambda>slot. if sid slot = slotId
                                              then slot\<lparr>s_isOfflineDeleted := True\<rparr> else slot)
                                      (slots r))\<rparr>"
    have ur: "rid u = rid r" by (simp add: u_def)
    have "routinesDB (snd (deleteRoutineSlot env (rid r) slotId s)) = (routinesDB s)[i := u]"
      using assms(1,2) i at [OF ur] by (simp add: deleteRoutineSlot_def Let_def u_def)
    then have "find (\<lambda>x. rid x = rid r)
                 (routinesDB (snd (deleteRoutineSlot env (rid r) slotId s))) = Some u"
      using found [OF ur] by simp
    moreover have "map (\<lambda>sl. (sid sl, s_isOffline sl, s_isOfflineUpdated sl)) (slots u)
               = map (\<lambda>sl. (sid sl, s_isOffline sl, s_isOfflineUpdated sl))
                   (filter (\<lambda>sl. \<not> (sid sl = slotId \<and> s_isOffline sl)) (slots r))
           \<and> map s_isOfflineDeleted (slots u)
               = map (\<lambda>sl. sid sl = slotId \<or> s_isOfflineDeleted sl)
                   (filter (\<lambda>sl. \<not> (sid sl = slotId \<and> s_isOffline sl)) (slots r))"
      unfolding u_def by (induction "slots r") (simp_all add: filter_map comp_def, auto)
    ultimately show "\<exists>r'. find (\<lambda>x. rid x = rid r)
                (routinesDB (snd (deleteRoutineSlot env (rid r) slotId s))) = Some r'
           \<and> map (\<lambda>sl. (sid sl, s_isOffline sl, s_isOfflineUpdated sl)) (slots r')
               = map (\<lambda>sl. (sid sl, s_isOffline sl, s_isOfflineUpdated sl))
                   (filter (\<lambda>sl. \<not> (sid sl = slotId \<and> s_isOffline sl)) (slots r))
           \<and> map s_isOfflineDeleted (slots r')
               = map (\<lambda>sl. sid sl = slotId \<or> s_isOfflineDeleted sl)
                   (filter (\<lambda>sl. \<not> (sid sl = slotId \<and> s_isOffline sl)) (slots r))"
      by blast
  qed
qed


theorem offline_mutations_add_their_flag_witness:
  "isOffline (renv_down True) \<and> db (renv_down True) = Healthy
   \<and> well_keyed rid (routinesDB routines_with_slots)
   \<and> routine_srv5 \<in> set (routinesDB routines_with_slots)
   \<and> pr_rid rename_routine = None \<and> pr_isOffline rename_routine = None
   \<and> pr_isOfflineUpdated rename_routine = None \<and> pr_isOfflineDeleted rename_routine = None
   \<and> (\<exists>r'. find (\<lambda>x. rid x = rid routine_srv5)
               (routinesDB (snd (updateRoutine (renv_down True) (rid routine_srv5)
                                   rename_routine routines_with_slots))) = Some r'
            \<and> r_isOfflineUpdated r'
            \<and> r_isOffline r' = r_isOffline routine_srv5
            \<and> r_isOfflineDeleted r' = r_isOfflineDeleted routine_srv5)
   \<and> \<not> r_isOffline routine_srv5
   \<and> find (\<lambda>x. rid x = rid routine_srv5)
        (routinesDB (snd (deleteRoutine (renv_down True) (rid routine_srv5)
                            routines_with_slots)))
       = Some (routine_srv5\<lparr>r_isOfflineDeleted := True\<rparr>)
   \<and> ps_sid move_slot = None \<and> ps_isOffline move_slot = None
   \<and> ps_isOfflineUpdated move_slot = None \<and> ps_isOfflineDeleted move_slot = None
   \<and> (\<exists>r'. find (\<lambda>x. rid x = rid routine_srv5)
               (routinesDB (snd (updateRoutineSlot (renv_down True) (rid routine_srv5)
                                   ''slot-1'' move_slot routines_with_slots))) = Some r'
            \<and> map sid (slots r') = map sid (slots routine_srv5)
            \<and> map s_isOffline (slots r') = map s_isOffline (slots routine_srv5)
            \<and> map s_isOfflineDeleted (slots r') = map s_isOfflineDeleted (slots routine_srv5)
            \<and> map s_isOfflineUpdated (slots r')
                = map (\<lambda>sl. sid sl = ''slot-1'' \<or> s_isOfflineUpdated sl) (slots routine_srv5))
   \<and> (\<exists>r'. find (\<lambda>x. rid x = rid routine_srv5)
               (routinesDB (snd (deleteRoutineSlot (renv_down True) (rid routine_srv5)
                                   ''slot-1'' routines_with_slots))) = Some r'
            \<and> map (\<lambda>sl. (sid sl, s_isOffline sl, s_isOfflineUpdated sl)) (slots r')
                = map (\<lambda>sl. (sid sl, s_isOffline sl, s_isOfflineUpdated sl))
                    (filter (\<lambda>sl. \<not> (sid sl = ''slot-1'' \<and> s_isOffline sl))
                       (slots routine_srv5))
            \<and> map s_isOfflineDeleted (slots r')
                = map (\<lambda>sl. sid sl = ''slot-1'' \<or> s_isOfflineDeleted sl)
                    (filter (\<lambda>sl. \<not> (sid sl = ''slot-1'' \<and> s_isOffline sl))
                       (slots routine_srv5)))
   \<and> map (\<lambda>sl. sid sl = ''slot-1'' \<or> s_isOfflineUpdated sl) (slots routine_srv5)
       = [True, False]
   \<and> map (\<lambda>sl. sid sl = ''slot-1'' \<or> s_isOfflineDeleted sl)
         (filter (\<lambda>sl. \<not> (sid sl = ''slot-1'' \<and> s_isOffline sl)) (slots routine_srv5))
       = [True, False]"
proof -
  have h: "isOffline (renv_down True)" "db (renv_down True) = Healthy"
      "well_keyed rid (routinesDB routines_with_slots)"
      "routine_srv5 \<in> set (routinesDB routines_with_slots)"
    by (simp_all add: renv_down_def routines_with_slots_def well_keyed_def)
  have p: "pr_rid rename_routine = None \<and> pr_isOffline rename_routine = None
      \<and> pr_isOfflineUpdated rename_routine = None \<and> pr_isOfflineDeleted rename_routine = None"
      "ps_sid move_slot = None \<and> ps_isOffline move_slot = None
      \<and> ps_isOfflineUpdated move_slot = None \<and> ps_isOfflineDeleted move_slot = None"
      "\<not> r_isOffline routine_srv5"
    by (simp_all add: rename_routine_def no_routine_keys_def move_slot_def no_slot_keys_def
        routine_srv5_def)
  have s: "map (\<lambda>sl. sid sl = ''slot-1'' \<or> s_isOfflineUpdated sl) (slots routine_srv5)
       = [True, False]"
     "map (\<lambda>sl. sid sl = ''slot-1'' \<or> s_isOfflineDeleted sl)
         (filter (\<lambda>sl. \<not> (sid sl = ''slot-1'' \<and> s_isOffline sl)) (slots routine_srv5))
       = [True, False]"
    by (simp_all add: routine_srv5_def slot_1_def slot_temp_def)
  have t: "(\<exists>r'. find (\<lambda>x. rid x = rid routine_srv5)
               (routinesDB (snd (updateRoutine (renv_down True) (rid routine_srv5)
                                   rename_routine routines_with_slots))) = Some r'
            \<and> r_isOfflineUpdated r'
            \<and> r_isOffline r' = r_isOffline routine_srv5
            \<and> r_isOfflineDeleted r' = r_isOfflineDeleted routine_srv5)
   \<and> find (\<lambda>x. rid x = rid routine_srv5)
        (routinesDB (snd (deleteRoutine (renv_down True) (rid routine_srv5)
                            routines_with_slots)))
       = Some (routine_srv5\<lparr>r_isOfflineDeleted := True\<rparr>)
   \<and> (\<exists>r'. find (\<lambda>x. rid x = rid routine_srv5)
               (routinesDB (snd (updateRoutineSlot (renv_down True) (rid routine_srv5)
                                   ''slot-1'' move_slot routines_with_slots))) = Some r'
            \<and> map sid (slots r') = map sid (slots routine_srv5)
            \<and> map s_isOffline (slots r') = map s_isOffline (slots routine_srv5)
            \<and> map s_isOfflineDeleted (slots r') = map s_isOfflineDeleted (slots routine_srv5)
            \<and> map s_isOfflineUpdated (slots r')
                = map (\<lambda>sl. sid sl = ''slot-1'' \<or> s_isOfflineUpdated sl) (slots routine_srv5))
   \<and> (\<exists>r'. find (\<lambda>x. rid x = rid routine_srv5)
               (routinesDB (snd (deleteRoutineSlot (renv_down True) (rid routine_srv5)
                                   ''slot-1'' routines_with_slots))) = Some r'
            \<and> map (\<lambda>sl. (sid sl, s_isOffline sl, s_isOfflineUpdated sl)) (slots r')
                = map (\<lambda>sl. (sid sl, s_isOffline sl, s_isOfflineUpdated sl))
                    (filter (\<lambda>sl. \<not> (sid sl = ''slot-1'' \<and> s_isOffline sl))
                       (slots routine_srv5))
            \<and> map s_isOfflineDeleted (slots r')
                = map (\<lambda>sl. sid sl = ''slot-1'' \<or> s_isOfflineDeleted sl)
                    (filter (\<lambda>sl. \<not> (sid sl = ''slot-1'' \<and> s_isOffline sl))
                       (slots routine_srv5)))"
    using offline_mutations_add_their_flag [OF h, of rename_routine move_slot "''slot-1''"] p
    by blast
  show ?thesis using h p s t by blast
qed


section \<open>One pass of reconciliation\<close>




lemma owned_by_mono: "owned_by I K K' \<Longrightarrow> I \<subseteq> J \<Longrightarrow> owned_by J K K'"
  unfolding owned_by_def by blast





















section \<open>Created offline, then reconciled\<close>






section \<open>Deleted offline, then reconciled\<close>







section \<open>Reconciliation at concrete states\<close>

text \<open>
  Claim C9. The claim: a record created offline and deleted while still offline is gone
  from the local store and from the view, and no later reconciliation makes a remote
  call for its provisional identifier. The tasks hook and \<open>deleteRoutineSlot\<close> do
  this; \<open>deleteRoutine\<close> does not. Evaluated here: a routine is created offline
  (identifier \<open>temp-1736500000000-k3x9q2a\<close>, flag \<open>_isOffline\<close>) and deleted
  offline; it leaves the view but stays in the local store with \<open>_isOfflineDeleted\<close>
  added, and the next reconciliation calls the remote delete with the provisional
  identifier, after which the record is still stored.
\<close>

theorem offline_created_routine_deleted_offline_is_replayed:
  "fst (createRoutine (renv_down True) new_routine routines_empty) = Inr routine_temp
   \<and> r_isOffline routine_temp
   \<and> routines created_then_deleted = []
   \<and> routinesDB created_then_deleted = [routine_temp\<lparr>r_isOfflineDeleted := True\<rparr>]
   \<and> routineCalls (syncOfflineChanges renv_up created_then_deleted)
       = [DeleteRoutine ''temp-1736500000000-k3x9q2a'']
   \<and> routinesDB (syncOfflineChanges renv_up created_then_deleted)
       = [routine_temp\<lparr>r_isOfflineDeleted := True\<rparr>]"
  unfolding created_then_deleted_eq created_offline_eq
  by (simp add: syncOfflineChanges_def renv_up_def routines_empty_def routine_temp_def Let_def)

text \<open>
  Claim C4. The claim: after a reconciliation in which every replay succeeded, a second
  one with no mutation in between makes no remote call. Evaluated here: the local store
  holds one routine created offline; the first reconciliation creates it on the server
  and shows the server's record \<open>srv-9\<close> in the view, but the write back to the
  database only puts records, so the provisional record stays stored with its flag;
  the second reconciliation calls the remote create for it again.
\<close>

theorem second_reconcile_repeats_create:
  "routinesDB created_offline = [routine_temp]
   \<and> routineCalls (syncOfflineChanges renv_up created_offline)
       = [CreateRoutine (routine_object (routine_temp\<lparr>r_isOffline := False\<rparr>))]
   \<and> routines (syncOfflineChanges renv_up created_offline) = [routine_temp_srv9]
   \<and> routinesDB (syncOfflineChanges renv_up created_offline)
       = [routine_temp_srv9, routine_temp]
   \<and> routineCalls (syncOfflineChanges renv_up (syncOfflineChanges renv_up created_offline))
       = [CreateRoutine (routine_object (routine_temp\<lparr>r_isOffline := False\<rparr>)),
          CreateRoutine (routine_object (routine_temp\<lparr>r_isOffline := False\<rparr>))]"
  unfolding created_offline_def created_offline_eq
  by (simp add: syncOfflineChanges_def renv_up_def routines_empty_def routine_temp_def
      routine_temp_srv9_def routine_object_def flag_key_def sync_slots_def Let_def)

text \<open>
  Claim C8. The claim: in one reconciliation each record is replayed on its own; a
  failed replay keeps its record's tag, the other records are still replayed, and the
  records whose replay succeeded lose their tags. Evaluated here: \<open>srv-3\<close> waits
  for its delete and \<open>srv-7\<close> for its update; the remote side accepts the delete and
  rejects the update. Both calls are made and \<open>srv-7\<close> keeps its flag, but \<open>srv-3\<close>,
  whose replay succeeded, is still in the local store with \<open>_isOfflineDeleted\<close>.
\<close>

theorem succeeded_delete_keeps_its_tag:
  "deleteRoutineService renv_partial [] ''srv-3'' = Inr ()
   \<and> routineCalls (syncOfflineChanges renv_partial routines_two_tagged)
       = [DeleteRoutine ''srv-3'',
          UpdateRoutine ''srv-7'' (routine_object (routine_srv7_updated
                                                   \<lparr>r_isOfflineUpdated := False\<rparr>))]
   \<and> routines (syncOfflineChanges renv_partial routines_two_tagged) = [routine_srv7_updated]
   \<and> routinesDB (syncOfflineChanges renv_partial routines_two_tagged)
       = [routine_srv3_deleted, routine_srv7_updated]
   \<and> r_isOfflineDeleted routine_srv3_deleted
   \<and> r_isOfflineUpdated routine_srv7_updated"
  by (simp add: syncOfflineChanges_def renv_partial_def renv_up_def routines_two_tagged_def
      routine_srv3_deleted_def routine_srv7_updated_def routine_srv7_def sync_slots_def
      Let_def)

end
